theory Spec2Isabelle
  imports Main
begin

section \<open>Values thrown by the JavaScript code\<close>

text \<open>
  A thrown value is an \<open>Error\<close> carrying its message, an \<open>ApiError\<close> (a subclass
  of \<open>Error\<close> with a status code and an error code), or some other value.
  \<open>js_string_of\<close> is what a template literal \<^verbatim>\<open>`${error}`\<close> yields for it.
\<close>

datatype exn = Error string | ApiError nat string string | Thrown string

fun js_string_of :: "exn \<Rightarrow> string" where
  "js_string_of (Error m) = ''Error: '' @ m"
| "js_string_of (ApiError statusCode errorCode m) = ''Error: '' @ m"
| "js_string_of (Thrown s) = s"

text \<open>Decimal digits of a number, as a template literal prints it.\<close>

fun digits :: "nat \<Rightarrow> nat \<Rightarrow> string" where
  "digits 0 n = []"
| "digits (Suc fuel) n =
     (if n < 10 then [char_of (48 + n)]
      else digits fuel (n div 10) @ [char_of (48 + n mod 10)])"

definition show_nat :: "nat \<Rightarrow> string" where
  "show_nat n = digits (Suc n) n"

definition show_int :: "int \<Rightarrow> string" where
  "show_int n = (if n < 0 then ''-'' @ show_nat (nat (- n)) else show_nat (nat n))"

text \<open>
  A JSON value, as the \<^verbatim>\<open>JSONB\<close> column of an environment holds one per variable
  name: the routes and the environment service store whatever the request supplied, so a
  value need not be a string. Of an object only that it is one matters here; a number is
  kept as the text JavaScript prints for it. \<open>to_js_string\<close> is what the template
  literal \<^verbatim>\<open>`${value}`\<close> yields: a string as it is, \<^verbatim>\<open>null\<close> and
  the booleans by name, an object as \<^verbatim>\<open>[object Object]\<close>, an array as its
  elements joined by commas (a \<^verbatim>\<open>null\<close> element as nothing).
\<close>

datatype json =
    JsonString string
  | JsonNumber string
  | JsonBool bool
  | JsonNull
  | JsonObject
  | JsonArray "json list"

fun join_commas :: "string list \<Rightarrow> string" where
  "join_commas [] = []"
| "join_commas [x] = x"
| "join_commas (x # y # ys) = x @ '','' @ join_commas (y # ys)"

fun to_js_string :: "json \<Rightarrow> string" where
  "to_js_string (JsonString s) = s"
| "to_js_string (JsonNumber printed) = printed"
| "to_js_string (JsonBool b) = (if b then ''true'' else ''false'')"
| "to_js_string JsonNull = ''null''"
| "to_js_string JsonObject = ''[object Object]''"
| "to_js_string (JsonArray xs) =
     join_commas (map (\<lambda>x. if x = JsonNull then [] else to_js_string x) xs)"

section \<open>Container runtime: the engine behind dockerode\<close>

text \<open>
  The engine is not code of the repository. Its state is the list of containers it holds;
  a reference resolves against a container's id or its name. The calls the service
  makes (inspect, stop, remove, create, start) answer as the Docker Engine API documents:
  an unknown reference is a 404, stopping a container that is not running is a 304,
  removing a running container or reusing a name is a 409, and starting a container whose
  host port is bound by another running container fails. Of what the service passes when
  it creates a container, the record keeps the name, the image, the environment and the
  two ports; the memory ceiling, the CPU share, the restart policy and the labels are
  constants of the call and are left out.
\<close>

record container =
  cid :: string
  cname :: string
  cimage :: string
  cenv :: "string list"
  chost_port :: nat
  ccontainer_port :: nat
  running :: bool

type_synonym docker = "container list"

definition refers :: "string \<Rightarrow> container \<Rightarrow> bool" where
  "refers ref c = (cid c = ref \<or> cname c = ref)"

definition resolve :: "docker \<Rightarrow> string \<Rightarrow> container option" where
  "resolve d ref = find (refers ref) d"

definition inspect :: "docker \<Rightarrow> string \<Rightarrow> exn + container" where
  "inspect d ref =
     (case resolve d ref of
        None \<Rightarrow> Inl (Error ''(HTTP code 404) no such container'')
      | Some c \<Rightarrow> Inr c)"

definition stop :: "docker \<Rightarrow> string \<Rightarrow> exn + docker" where
  "stop d ref =
     (case resolve d ref of
        None \<Rightarrow> Inl (Error ''(HTTP code 404) no such container'')
      | Some c \<Rightarrow>
          if running c
          then Inr (map (\<lambda>x. if x = c then x\<lparr>running := False\<rparr> else x) d)
          else Inl (Error ''(HTTP code 304) container already stopped''))"

definition remove :: "docker \<Rightarrow> string \<Rightarrow> exn + docker" where
  "remove d ref =
     (case resolve d ref of
        None \<Rightarrow> Inl (Error ''(HTTP code 404) no such container'')
      | Some c \<Rightarrow>
          if running c
          then Inl (Error ''(HTTP code 409) cannot remove a running container'')
          else Inr (filter (\<lambda>x. x \<noteq> c) d))"

definition createContainer :: "docker \<Rightarrow> container \<Rightarrow> exn + docker" where
  "createContainer d c =
     (if list_ex (\<lambda>x. refers (cname c) x \<or> refers (cid c) x) d
      then Inl (Error ''(HTTP code 409) name is already in use'')
      else Inr (d @ [c\<lparr>running := False\<rparr>]))"

definition start :: "docker \<Rightarrow> string \<Rightarrow> exn + docker" where
  "start d ref =
     (case resolve d ref of
        None \<Rightarrow> Inl (Error ''(HTTP code 404) no such container'')
      | Some c \<Rightarrow>
          if list_ex (\<lambda>x. running x \<and> x \<noteq> c \<and> chost_port x = chost_port c) d
          then Inl (Error ''(HTTP code 500) port is already allocated'')
          else Inr (map (\<lambda>x. if x = c then x\<lparr>running := True\<rparr> else x) d))"

section \<open>DockerService\<close>

subsection \<open>stopContainer\<close>

text \<open>
  \<^verbatim>\<open>stopContainer(containerId)\<close>: the inspect and the stop share one inner
  \<^verbatim>\<open>try\<close>, whose \<^verbatim>\<open>catch\<close> only logs; the removal has an inner
  \<^verbatim>\<open>try\<close> of its own. The outer \<^verbatim>\<open>catch\<close>, which would rethrow
  "Failed to stop Docker container", guards nothing else that can throw.
\<close>

definition stopContainer :: "docker \<Rightarrow> string \<Rightarrow> exn + docker" where
  "stopContainer d containerId =
     (let d1 = (case inspect d containerId of
                  Inl inspectError \<Rightarrow> d
                | Inr data \<Rightarrow>
                    if running data
                    then (case stop d containerId of Inl inspectError \<Rightarrow> d | Inr s \<Rightarrow> s)
                    else d);
          d2 = (case remove d1 containerId of Inl removeError \<Rightarrow> d1 | Inr r \<Rightarrow> r)
      in Inr d2)"

subsection \<open>runContainer\<close>

text \<open>
  \<^verbatim>\<open>allocatePort()\<close> adds \<^verbatim>\<open>Math.floor(Math.random() * 1000)\<close>, here the
  argument, to the base port 8000.
\<close>

definition allocatePort :: "nat \<Rightarrow> nat" where
  "allocatePort randomOffset = 8000 + randomOffset"

text \<open>
  The \<^verbatim>\<open>Env\<close> array handed to the engine: one \<^verbatim>\<open>`${key}=${value}`\<close> per
  pair of \<^verbatim>\<open>Object.entries(envVariables)\<close>, then the pushed marker. The argument
  is that list of pairs, in the order \<^verbatim>\<open>Object.entries\<close> enumerates the object
  (which need not be the order in which the variables were supplied).
\<close>

definition injected_env :: "(string \<times> json) list \<Rightarrow> string list" where
  "injected_env envVariables =
     map (\<lambda>(key, value). key @ ''='' @ to_js_string value) envVariables
       @ [''NODE_ENV=production'']"

text \<open>
  \<^verbatim>\<open>runContainer\<close> returns the engine's state together with either the thrown
  error or the container id and host port. \<open>randomOffset\<close> is the random draw of
  \<^verbatim>\<open>allocatePort\<close> and \<open>newId\<close> the id the engine gives the created container.
  An old container of the same name is stopped (a failure of the stop is swallowed) and
  removed; a failure of the inspect or of the removal lands in the inner \<^verbatim>\<open>catch\<close>
  and the run continues. A failure of the create or of the start is rethrown wrapped.
\<close>

definition runContainer ::
  "docker \<Rightarrow> nat \<Rightarrow> string \<Rightarrow> string \<Rightarrow> string \<Rightarrow> string \<Rightarrow> (string \<times> json) list \<Rightarrow> string
     \<Rightarrow> docker \<times> (exn + string \<times> nat)" where
  "runContainer d randomOffset newId imageName projectId environmentId envVariables framework =
     (let port = allocatePort randomOffset;
          containerName = ''gilgal-'' @ projectId @ ''-'' @ take 8 environmentId;
          d1 = (case inspect d containerName of
                  Inl e \<Rightarrow> d
                | Inr containerData \<Rightarrow>
                    (let d0 = (case stop d containerName of Inl e \<Rightarrow> d | Inr s \<Rightarrow> s)
                     in case remove d0 containerName of Inl e \<Rightarrow> d0 | Inr r \<Rightarrow> r));
          containerPort = (if framework = ''react'' \<or> framework = ''next'' then 80 else 3000);
          env = injected_env envVariables
      in case createContainer d1
                \<lparr>cid = newId, cname = containerName, cimage = imageName, cenv = env,
                 chost_port = port, ccontainer_port = containerPort, running = False\<rparr> of
           Inl e \<Rightarrow> (d1, Inl (Error (''Failed to run Docker container: '' @ js_string_of e)))
         | Inr d2 \<Rightarrow>
             (case start d2 newId of
                Inl e \<Rightarrow> (d2, Inl (Error (''Failed to run Docker container: '' @ js_string_of e)))
              | Inr d3 \<Rightarrow> (d3, Inr (newId, port))))"

text \<open>
  How a container reads its \<^verbatim>\<open>Env\<close> array (the runtime's convention, not code of
  the repository): an entry names the variable up to its first \<^verbatim>\<open>=\<close>, and entries
  are set in order, so a later entry for a name replaces an earlier one.
\<close>

fun split_entry :: "string \<Rightarrow> string \<times> string" where
  "split_entry [] = ([], [])"
| "split_entry (c # cs) =
     (if c = CHR ''='' then ([], cs)
      else (case split_entry cs of (k, v) \<Rightarrow> (c # k, v)))"

definition container_getenv :: "string list \<Rightarrow> string \<Rightarrow> string option" where
  "container_getenv env name = map_of (rev (map split_entry env)) name"

section \<open>Database\<close>

text \<open>
  The tables the deployment code reads and writes, one record per row, rows in insertion
  order. \<open>now\<close> is the database clock behind \<^verbatim>\<open>CURRENT_TIMESTAMP\<close>. Statuses
  and log levels are the strings the code writes (the columns are \<^verbatim>\<open>VARCHAR\<close>
  with no check constraint). \<open>engine\<close> is the container engine's state and
  \<open>docker_builds\<close> counts the runs of \<^verbatim>\<open>docker build\<close> so far. A query of
  the pipeline may be refused by the database (see \<open>db_fault\<close> below); the queries of
  the other operations are taken to complete, except the inserts that can violate a
  constraint. A log row's generated id and timestamp are left out; the order of the list
  is the order of insertion.
\<close>

record deployment =
  dep_id :: string
  project_id :: string
  environment_id :: string
  commit_sha :: "string option"
  commit_message :: "string option"
  status :: string
  duration_seconds :: "int option"
  deployed_at :: "nat option"
  container_id :: "string option"
  container_port :: "nat option"
  error_message :: "string option"
  created_at :: nat
  updated_at :: nat

record deployment_log =
  log_deployment_id :: string
  log_level :: string
  message :: string

record project =
  p_id :: string
  user_id :: string
  slug :: string
  repository_url :: "string option"
  webhook_secret :: "string option"
  p_deleted_at :: "nat option"

record environment =
  e_id :: string
  e_project_id :: string
  e_name :: string
  environment_variables :: "(string \<times> json) list"
  e_deleted_at :: "nat option"

record world =
  deployments :: "deployment list"
  deployment_logs :: "deployment_log list"
  projects :: "project list"
  environments :: "environment list"
  engine :: docker
  docker_builds :: nat
  now :: nat

text \<open>\<^verbatim>\<open>DEPLOYMENT_STATUS\<close> of the constants module.\<close>

abbreviation PENDING :: string where "PENDING \<equiv> ''pending''"
abbreviation BUILDING :: string where "BUILDING \<equiv> ''building''"
abbreviation SUCCESS :: string where "SUCCESS \<equiv> ''success''"
abbreviation FAILED :: string where "FAILED \<equiv> ''failed''"

text \<open>
  What the driver hands back for a selected row is an object keyed by the column names.
  Reading a property the object does not have gives \<^verbatim>\<open>undefined\<close>, here
  \<open>None\<close>; a \<^verbatim>\<open>NULL\<close> column is \<open>JNull\<close>. Timestamps are numbers
  (\<open>JNum\<close>); the signed \<^verbatim>\<open>INTEGER\<close> column of the duration is a \<open>JInt\<close>.
\<close>

datatype jsval = JStr string | JNum nat | JInt int | JNull

type_synonym row = "(string \<times> jsval) list"

definition js_get :: "row \<Rightarrow> string \<Rightarrow> jsval option" where
  "js_get r key = map_of r key"

fun truthy :: "jsval option \<Rightarrow> bool" where
  "truthy None = False"
| "truthy (Some JNull) = False"
| "truthy (Some (JStr s)) = (s \<noteq> [])"
| "truthy (Some (JNum n)) = (n \<noteq> 0)"
| "truthy (Some (JInt n)) = (n \<noteq> 0)"

fun str_of :: "jsval option \<Rightarrow> string" where
  "str_of (Some (JStr s)) = s"
| "str_of (Some (JNum n)) = show_nat n"
| "str_of (Some (JInt n)) = show_int n"
| "str_of (Some JNull) = ''null''"
| "str_of None = ''undefined''"

definition opt_str :: "string option \<Rightarrow> jsval" where
  "opt_str x = (case x of None \<Rightarrow> JNull | Some s \<Rightarrow> JStr s)"

definition opt_num :: "nat option \<Rightarrow> jsval" where
  "opt_num x = (case x of None \<Rightarrow> JNull | Some n \<Rightarrow> JNum n)"

definition opt_int :: "int option \<Rightarrow> jsval" where
  "opt_int x = (case x of None \<Rightarrow> JNull | Some n \<Rightarrow> JInt n)"

text \<open>
  The column list shared by \<^verbatim>\<open>getDeployment\<close> and the rollback query:
  \<^verbatim>\<open>id, project_id, environment_id, commit_sha, commit_message, status,
  duration_seconds, deployed_at, container_id, error_message, created_at, updated_at\<close>.
\<close>

definition deployment_row :: "deployment \<Rightarrow> row" where
  "deployment_row d =
     [(''id'', JStr (dep_id d)),
      (''project_id'', JStr (project_id d)),
      (''environment_id'', JStr (environment_id d)),
      (''commit_sha'', opt_str (commit_sha d)),
      (''commit_message'', opt_str (commit_message d)),
      (''status'', JStr (status d)),
      (''duration_seconds'', opt_int (duration_seconds d)),
      (''deployed_at'', opt_num (deployed_at d)),
      (''container_id'', opt_str (container_id d)),
      (''error_message'', opt_str (error_message d)),
      (''created_at'', JNum (created_at d)),
      (''updated_at'', JNum (updated_at d))]"

text \<open>
  A query parameter that is \<^verbatim>\<open>undefined\<close> or \<^verbatim>\<open>null\<close> reaches the
  database as \<^verbatim>\<open>NULL\<close>, and a comparison with \<^verbatim>\<open>NULL\<close> selects no row.
\<close>

fun sql_eq :: "string \<Rightarrow> jsval option \<Rightarrow> bool" where
  "sql_eq col (Some (JStr s)) = (col = s)"
| "sql_eq col _ = False"

fun sql_lt :: "nat \<Rightarrow> jsval option \<Rightarrow> bool" where
  "sql_lt col (Some (JNum n)) = (col < n)"
| "sql_lt col _ = False"

text \<open>\<^verbatim>\<open>UPDATE deployments SET ... WHERE id = $n\<close>.\<close>

definition update_deployment :: "string \<Rightarrow> (deployment \<Rightarrow> deployment) \<Rightarrow> world \<Rightarrow> world" where
  "update_deployment deploymentId f w =
     w\<lparr>deployments := map (\<lambda>d. if dep_id d = deploymentId then f d else d) (deployments w)\<rparr>"

section \<open>DeploymentService\<close>

definition addDeploymentLog :: "world \<Rightarrow> string \<Rightarrow> string \<Rightarrow> string \<Rightarrow> world" where
  "addDeploymentLog w deploymentId level msg =
     w\<lparr>deployment_logs := deployment_logs w @
          [\<lparr>log_deployment_id = deploymentId, log_level = level, message = msg\<rparr>]\<rparr>"

text \<open>
  \<^verbatim>\<open>getDeployment\<close>: the deployment joined with its project, for the project's owner;
  no row is a 404.
\<close>

definition getDeployment :: "world \<Rightarrow> string \<Rightarrow> string \<Rightarrow> exn + row" where
  "getDeployment w deploymentId userId =
     (case filter (\<lambda>d. dep_id d = deploymentId \<and>
                       list_ex (\<lambda>p. p_id p = project_id d \<and> user_id p = userId) (projects w))
             (deployments w) of
        [] \<Rightarrow> Inl (ApiError 404 ''NOT_FOUND'' ''Deployment not found'')
      | d # _ \<Rightarrow> Inr (deployment_row d))"

text \<open>
  \<^verbatim>\<open>cancelDeployment\<close>. The status test reads \<^verbatim>\<open>deployment.status\<close>; the
  container test reads \<^verbatim>\<open>deployment.containerId\<close>. The update sets the status
  and \<^verbatim>\<open>updated_at\<close> only.
\<close>

definition cancelDeployment :: "world \<Rightarrow> string \<Rightarrow> string \<Rightarrow> exn + world" where
  "cancelDeployment w deploymentId userId =
     (case getDeployment w deploymentId userId of
        Inl e \<Rightarrow> Inl e
      | Inr deployment \<Rightarrow>
          if js_get deployment ''status'' \<noteq> Some (JStr PENDING) \<and>
             js_get deployment ''status'' \<noteq> Some (JStr BUILDING)
          then Inl (ApiError 400 ''VALIDATION_ERROR'' ''Cannot cancel completed deployment'')
          else
            (let w1 = (if truthy (js_get deployment ''containerId'')
                       then (case stopContainer (engine w) (str_of (js_get deployment ''containerId'')) of
                               Inl e \<Rightarrow> w
                             | Inr d \<Rightarrow> w\<lparr>engine := d\<rparr>)
                       else w);
                 w2 = update_deployment deploymentId
                        (\<lambda>d. d\<lparr>status := ''cancelled'', updated_at := now w1\<rparr>) w1
             in Inr (addDeploymentLog w2 deploymentId ''info'' ''Deployment cancelled by user'')))"

text \<open>
  \<^verbatim>\<open>rollbackDeployment\<close>. The query for the previous deployment takes its four
  parameters from \<^verbatim>\<open>currentDeployment.projectId\<close>,
  \<^verbatim>\<open>currentDeployment.environmentId\<close>, the success status and
  \<^verbatim>\<open>currentDeployment.createdAt\<close>; it orders by creation time, latest first, and
  keeps one row.
\<close>

definition previous_query ::
  "world \<Rightarrow> jsval option \<Rightarrow> jsval option \<Rightarrow> jsval option \<Rightarrow> jsval option \<Rightarrow> deployment list" where
  "previous_query w p1 p2 p3 p4 =
     take 1 (rev (sort_key created_at
       (filter (\<lambda>d. sql_eq (project_id d) p1 \<and> sql_eq (environment_id d) p2 \<and>
                     sql_eq (status d) p3 \<and> sql_lt (created_at d) p4)
          (deployments w))))"

definition rollbackDeployment :: "world \<Rightarrow> string \<Rightarrow> string \<Rightarrow> exn + world \<times> row" where
  "rollbackDeployment w deploymentId userId =
     (case getDeployment w deploymentId userId of
        Inl e \<Rightarrow> Inl e
      | Inr currentDeployment \<Rightarrow>
          (case previous_query w
                  (js_get currentDeployment ''projectId'')
                  (js_get currentDeployment ''environmentId'')
                  (Some (JStr SUCCESS))
                  (js_get currentDeployment ''createdAt'') of
             [] \<Rightarrow> Inl (ApiError 400 ''VALIDATION_ERROR'' ''No previous successful deployment found'')
           | previous # _ \<Rightarrow>
               (let previousDeployment = deployment_row previous;
                    w1 = (if truthy (js_get currentDeployment ''containerId'')
                          then (case stopContainer (engine w)
                                       (str_of (js_get currentDeployment ''containerId'')) of
                                  Inl e \<Rightarrow> w
                                | Inr d \<Rightarrow> w\<lparr>engine := d\<rparr>)
                          else w)
                in Inr (addDeploymentLog w1 deploymentId ''info''
                          (''Rolling back to deployment '' @ str_of (js_get previousDeployment ''id'')),
                        previousDeployment))))"

subsection \<open>The deployment pipeline\<close>

text \<open>
  The queries one activation of \<^verbatim>\<open>executeDeployment\<close> awaits, by the place of the
  call.
\<close>

datatype query =
    QSetBuilding
  | QLogStarting
  | QReadEnvironment
  | QReadProject
  | QLogBuilding
  | QLogBuilt
  | QLogStartingContainer
  | QLogRunning
  | QSetSuccess
  | QLogCompleted
  | QLogUpdatingNginx
  | QLogNginxUpdated
  | QLogNginxFailed
  | QSetFailed
  | QLogFailed

text \<open>
  What one activation of \<^verbatim>\<open>executeDeployment\<close> reads from outside the program:
  the clock at entry, when the success duration is computed and when the
  \<^verbatim>\<open>catch\<close> block computes its duration (milliseconds), the random part of the
  image name, whether the clone throws, whether one of the file-system steps between the
  clone and the build throws (reading the manifest, writing the generated files, copying
  the source), the framework detected, whether the image build throws, the random port
  offset, the id the engine gives the new container, whether the proxy reconfiguration
  throws, and for each query whether the database refuses it (with the error the query
  helper rethrows; a refused query changes nothing).
  \<^verbatim>\<open>NginxConfigService.applyNginxConfig\<close> is not among the repository's files: its
  outcome is the \<open>nginx\<close> field, and it is taken not to write to the deployments table.
\<close>

record pipeline_io =
  startTime :: int
  endTime :: int
  catchTime :: int
  uuid8 :: string
  git_clone :: "exn option"
  staging :: "exn option"
  detected_framework :: string
  docker_build :: "exn option"
  randomOffset :: nat
  newContainerId :: string
  nginx :: "exn option"
  db_fault :: "query \<Rightarrow> exn option"

text \<open>
  \<^verbatim>\<open>buildImage\<close>: the clone runs only for a truthy source URL and its failure is
  rethrown as "Failed to clone repository"; a failure of a file-system step is thrown as
  it is; when \<^verbatim>\<open>docker build\<close> fails, the \<^verbatim>\<open>catch\<close> runs the same
  \<^verbatim>\<open>docker build\<close> a second time to show its output, ignores how that second run
  ends, and throws "Failed to build Docker image"; the outer \<^verbatim>\<open>catch\<close> wraps
  whatever was thrown once more. The result is the number of times
  \<^verbatim>\<open>docker build\<close> was run, and either the thrown error or
  \<^verbatim>\<open>{imageId, imageName, framework}\<close> with \<^verbatim>\<open>imageId = imageName\<close>.
\<close>

definition buildImage ::
  "pipeline_io \<Rightarrow> string \<Rightarrow> string \<Rightarrow> string option
     \<Rightarrow> nat \<times> (exn + string \<times> string \<times> string)" where
  "buildImage io projectId deploymentId sourceUrl =
     (let imageName = ''gilgal-'' @ projectId @ ''-'' @ uuid8 io;
          cloned = (case sourceUrl of
                      None \<Rightarrow> None
                    | Some url \<Rightarrow>
                        if url = [] then None
                        else (case git_clone io of
                                None \<Rightarrow> None
                              | Some gitError \<Rightarrow>
                                  Some (Error (''Failed to clone repository: ''
                                          @ js_string_of gitError))));
          inner = (case cloned of
                     Some e \<Rightarrow> (0, Inl e)
                   | None \<Rightarrow>
                       (case staging io of
                          Some fsError \<Rightarrow> (0, Inl fsError)
                        | None \<Rightarrow>
                            (case docker_build io of
                               Some buildError \<Rightarrow>
                                 (2, Inl (Error (''Failed to build Docker image: ''
                                            @ js_string_of buildError)))
                             | None \<Rightarrow> (1, Inr (imageName, imageName, detected_framework io)))))
      in case inner of
           (runs, Inl error) \<Rightarrow>
             (runs, Inl (Error (''Failed to build Docker image: '' @ js_string_of error)))
         | (runs, Inr r) \<Rightarrow> (runs, Inr r))"

text \<open>
  \<^verbatim>\<open>executeDeployment\<close> is asynchronous: between two \<^verbatim>\<open>await\<close>s other
  requests run. Its program points are the awaited calls, each carrying the local
  variables still in use, so that one \<open>step\<close> is what runs atomically. \<open>Finished\<close> is
  the resolved promise and \<open>Rejected\<close> the rejected one, with the error it rejects with.
\<close>

datatype pc =
    SetBuilding
  | LogStarting
  | ReadEnvironment
  | ReadProject "(string \<times> json) list"
  | LogBuilding "(string \<times> json) list" "string option"
  | Build "(string \<times> json) list" "string option"
  | LogBuilt "(string \<times> json) list" string string
  | LogStartingContainer "(string \<times> json) list" string string
  | Run "(string \<times> json) list" string string
  | LogRunning string nat
  | SetSuccess string nat
  | LogCompleted int
  | LogUpdatingNginx
  | ApplyNginx
  | LogNginxUpdated
  | LogNginxFailed
  | SetFailed exn
  | LogFailed string
  | Finished
  | Rejected exn

text \<open>\<^verbatim>\<open>error instanceof Error ? error.message : 'Unknown error'\<close>.\<close>

fun error_message_of :: "exn \<Rightarrow> string" where
  "error_message_of (Error m) = m"
| "error_message_of (ApiError statusCode errorCode m) = m"
| "error_message_of (Thrown v) = ''Unknown error''"

text \<open>
  \<^verbatim>\<open>Math.floor((Date.now() - startTime) / 1000)\<close>, after the run and in the
  \<^verbatim>\<open>catch\<close> block. The difference is negative when the clock was set back, and the
  integer division rounds down as \<^verbatim>\<open>Math.floor\<close> does.
\<close>

definition duration :: "pipeline_io \<Rightarrow> int" where
  "duration io = (endTime io - startTime io) div 1000"

definition catch_duration :: "pipeline_io \<Rightarrow> int" where
  "catch_duration io = (catchTime io - startTime io) div 1000"

text \<open>
  \<^verbatim>\<open>envResult.rows[0]?.environment_variables || {}\<close> and
  \<^verbatim>\<open>projectResult.rows[0]?.repository_url\<close>. The \<^verbatim>\<open>JSONB\<close> value
  of an environment's variables is kept as the list of pairs that
  \<^verbatim>\<open>Object.entries\<close> enumerates of it, in that order (integer-like names first,
  and the others as the database returns them, which need not be the order in which they
  were supplied); a missing row and a falsy value give the empty list.
\<close>

definition variables_of :: "world \<Rightarrow> string \<Rightarrow> (string \<times> json) list" where
  "variables_of w environmentId =
     (case filter (\<lambda>e. e_id e = environmentId) (environments w) of
        [] \<Rightarrow> []
      | e # _ \<Rightarrow> environment_variables e)"

definition repository_of :: "world \<Rightarrow> string \<Rightarrow> string option" where
  "repository_of w projectId =
     (case filter (\<lambda>p. p_id p = projectId) (projects w) of
        [] \<Rightarrow> None
      | p # _ \<Rightarrow> repository_url p)"

text \<open>
  One step. A query the database refuses throws: inside the \<^verbatim>\<open>try\<close> the throw
  lands in the \<^verbatim>\<open>catch\<close> block (\<open>SetFailed\<close>); the log write after a successful
  proxy update sits in the inner \<^verbatim>\<open>try\<close>, so its throw lands in the inner
  \<^verbatim>\<open>catch\<close> (\<open>LogNginxFailed\<close>), whose own log write is guarded by the outer
  \<^verbatim>\<open>try\<close> only; the two queries of the \<^verbatim>\<open>catch\<close> block are guarded by
  nothing, so their throw rejects the promise.
\<close>

fun step :: "pipeline_io \<Rightarrow> string \<Rightarrow> string \<Rightarrow> string \<Rightarrow> pc \<times> world \<Rightarrow> pc \<times> world" where
  "step io deploymentId projectId environmentId (SetBuilding, w) =
     (case db_fault io QSetBuilding of
        Some error \<Rightarrow> (SetFailed error, w)
      | None \<Rightarrow>
          (LogStarting, update_deployment deploymentId (\<lambda>d. d\<lparr>status := BUILDING\<rparr>) w))"
| "step io deploymentId projectId environmentId (LogStarting, w) =
     (case db_fault io QLogStarting of
        Some error \<Rightarrow> (SetFailed error, w)
      | None \<Rightarrow>
          (ReadEnvironment,
           addDeploymentLog w deploymentId ''info'' ''Starting deployment pipeline...''))"
| "step io deploymentId projectId environmentId (ReadEnvironment, w) =
     (case db_fault io QReadEnvironment of
        Some error \<Rightarrow> (SetFailed error, w)
      | None \<Rightarrow> (ReadProject (variables_of w environmentId), w))"
| "step io deploymentId projectId environmentId (ReadProject envVariables, w) =
     (case db_fault io QReadProject of
        Some error \<Rightarrow> (SetFailed error, w)
      | None \<Rightarrow> (LogBuilding envVariables (repository_of w projectId), w))"
| "step io deploymentId projectId environmentId (LogBuilding envVariables repositoryUrl, w) =
     (case db_fault io QLogBuilding of
        Some error \<Rightarrow> (SetFailed error, w)
      | None \<Rightarrow>
          (Build envVariables repositoryUrl,
           addDeploymentLog w deploymentId ''info'' ''Building Docker image...''))"
| "step io deploymentId projectId environmentId (Build envVariables repositoryUrl, w) =
     (case buildImage io projectId deploymentId repositoryUrl of
        (runs, Inl error) \<Rightarrow>
          (SetFailed error, w\<lparr>docker_builds := docker_builds w + runs\<rparr>)
      | (runs, Inr (imageId, imageName, framework)) \<Rightarrow>
          (LogBuilt envVariables imageName framework,
           w\<lparr>docker_builds := docker_builds w + runs\<rparr>))"
| "step io deploymentId projectId environmentId (LogBuilt envVariables imageName framework, w) =
     (case db_fault io QLogBuilt of
        Some error \<Rightarrow> (SetFailed error, w)
      | None \<Rightarrow>
          (LogStartingContainer envVariables imageName framework,
           addDeploymentLog w deploymentId ''info'' (''Docker image built: '' @ imageName)))"
| "step io deploymentId projectId environmentId
       (LogStartingContainer envVariables imageName framework, w) =
     (case db_fault io QLogStartingContainer of
        Some error \<Rightarrow> (SetFailed error, w)
      | None \<Rightarrow>
          (Run envVariables imageName framework,
           addDeploymentLog w deploymentId ''info'' ''Starting container...''))"
| "step io deploymentId projectId environmentId (Run envVariables imageName framework, w) =
     (case runContainer (engine w) (randomOffset io) (newContainerId io) imageName projectId
             environmentId envVariables framework of
        (d, Inl error) \<Rightarrow> (SetFailed error, w\<lparr>engine := d\<rparr>)
      | (d, Inr (containerId, port)) \<Rightarrow> (LogRunning containerId port, w\<lparr>engine := d\<rparr>))"
| "step io deploymentId projectId environmentId (LogRunning containerId port, w) =
     (case db_fault io QLogRunning of
        Some error \<Rightarrow> (SetFailed error, w)
      | None \<Rightarrow>
          (SetSuccess containerId port,
           addDeploymentLog w deploymentId ''info''
             (''Container running on port '' @ show_nat port)))"
| "step io deploymentId projectId environmentId (SetSuccess containerId port, w) =
     (case db_fault io QSetSuccess of
        Some error \<Rightarrow> (SetFailed error, w)
      | None \<Rightarrow>
          (LogCompleted (duration io),
           update_deployment deploymentId
             (\<lambda>d. d\<lparr>status := SUCCESS, container_id := Some containerId,
                    container_port := Some port, duration_seconds := Some (duration io),
                    deployed_at := Some (now w), updated_at := now w\<rparr>) w))"
| "step io deploymentId projectId environmentId (LogCompleted dur, w) =
     (case db_fault io QLogCompleted of
        Some error \<Rightarrow> (SetFailed error, w)
      | None \<Rightarrow>
          (LogUpdatingNginx,
           addDeploymentLog w deploymentId ''info''
             (''Deployment completed successfully in '' @ show_int dur @ ''s'')))"
| "step io deploymentId projectId environmentId (LogUpdatingNginx, w) =
     (case db_fault io QLogUpdatingNginx of
        Some error \<Rightarrow> (SetFailed error, w)
      | None \<Rightarrow>
          (ApplyNginx,
           addDeploymentLog w deploymentId ''info'' ''Updating nginx configuration...''))"
| "step io deploymentId projectId environmentId (ApplyNginx, w) =
     (case nginx io of None \<Rightarrow> (LogNginxUpdated, w) | Some nginxError \<Rightarrow> (LogNginxFailed, w))"
| "step io deploymentId projectId environmentId (LogNginxUpdated, w) =
     (case db_fault io QLogNginxUpdated of
        Some nginxError \<Rightarrow> (LogNginxFailed, w)
      | None \<Rightarrow>
          (Finished,
           addDeploymentLog w deploymentId ''info''
             ''Nginx configuration updated - app now accessible at subdomain''))"
| "step io deploymentId projectId environmentId (LogNginxFailed, w) =
     (case db_fault io QLogNginxFailed of
        Some error \<Rightarrow> (SetFailed error, w)
      | None \<Rightarrow>
          (Finished,
           addDeploymentLog w deploymentId ''warn''
             ''Deployment successful but nginx config update failed (may require manual setup)''))"
| "step io deploymentId projectId environmentId (SetFailed error, w) =
     (case db_fault io QSetFailed of
        Some rejection \<Rightarrow> (Rejected rejection, w)
      | None \<Rightarrow>
          (LogFailed (error_message_of error),
           update_deployment deploymentId
             (\<lambda>d. d\<lparr>status := FAILED, error_message := Some (error_message_of error),
                    duration_seconds := Some (catch_duration io), updated_at := now w\<rparr>) w))"
| "step io deploymentId projectId environmentId (LogFailed errorMessage, w) =
     (case db_fault io QLogFailed of
        Some rejection \<Rightarrow> (Rejected rejection, w)
      | None \<Rightarrow>
          (Finished,
           addDeploymentLog w deploymentId ''error'' (''Deployment failed: '' @ errorMessage)))"
| "step io deploymentId projectId environmentId (Finished, w) = (Finished, w)"
| "step io deploymentId projectId environmentId (Rejected rejection, w) = (Rejected rejection, w)"

text \<open>
  Whether the activation has ended, and how: \<open>Some None\<close> is the resolved promise,
  \<open>Some (Some e)\<close> the promise rejected with \<open>e\<close>.
\<close>

fun halted :: "pc \<Rightarrow> exn option option" where
  "halted Finished = Some None"
| "halted (Rejected rejection) = Some (Some rejection)"
| "halted p = None"

text \<open>The number of steps a program point is from the end, at most.\<close>

fun remaining :: "pc \<Rightarrow> nat" where
  "remaining SetBuilding = 18"
| "remaining LogStarting = 17"
| "remaining ReadEnvironment = 16"
| "remaining (ReadProject envVariables) = 15"
| "remaining (LogBuilding envVariables repositoryUrl) = 14"
| "remaining (Build envVariables repositoryUrl) = 13"
| "remaining (LogBuilt envVariables imageName framework) = 12"
| "remaining (LogStartingContainer envVariables imageName framework) = 11"
| "remaining (Run envVariables imageName framework) = 10"
| "remaining (LogRunning containerId port) = 9"
| "remaining (SetSuccess containerId port) = 8"
| "remaining (LogCompleted dur) = 7"
| "remaining LogUpdatingNginx = 6"
| "remaining ApplyNginx = 5"
| "remaining LogNginxUpdated = 4"
| "remaining LogNginxFailed = 3"
| "remaining (SetFailed error) = 2"
| "remaining (LogFailed errorMessage) = 1"
| "remaining Finished = 0"
| "remaining (Rejected rejection) = 0"

lemma step_decreases:
  "halted p = None \<Longrightarrow> remaining (fst (step io i pid eid (p, w))) < remaining p"
  by (cases p) (auto split: sum.splits prod.splits option.splits)

text \<open>
  Running an activation from a program point to its end: the world it leaves, and
  \<open>None\<close> if its promise resolved or the error it rejected with.
\<close>

function run ::
  "pipeline_io \<Rightarrow> string \<Rightarrow> string \<Rightarrow> string \<Rightarrow> pc \<times> world \<Rightarrow> world \<times> exn option" where
  "run io deploymentId projectId environmentId (p, w) =
     (case halted p of
        Some outcome \<Rightarrow> (w, outcome)
      | None \<Rightarrow>
          run io deploymentId projectId environmentId
            (step io deploymentId projectId environmentId (p, w)))"
  by pat_completeness auto
termination
proof (relation "measure (\<lambda>(io, i, pid, eid, p, w). remaining p)")
  show "wf (measure (\<lambda>(io, i, pid, eid, p, w). remaining p))"
    by simp
next
  fix io :: pipeline_io and deploymentId projectId environmentId :: string
    and p :: pc and w :: world
  assume "halted p = None"
  then have "remaining (fst (step io deploymentId projectId environmentId (p, w))) < remaining p"
    by (rule step_decreases)
  then show "((io, deploymentId, projectId, environmentId,
               step io deploymentId projectId environmentId (p, w)),
              (io, deploymentId, projectId, environmentId, p, w))
             \<in> measure (\<lambda>(io, i, pid, eid, p, w). remaining p)"
    by (cases "step io deploymentId projectId environmentId (p, w)") simp
qed

text \<open>
  \<^verbatim>\<open>executeDeployment\<close> run without interruption. The \<^verbatim>\<open>userId\<close> argument is
  not used by the body.
\<close>

definition executeDeployment ::
  "pipeline_io \<Rightarrow> world \<Rightarrow> string \<Rightarrow> string \<Rightarrow> string \<Rightarrow> string \<Rightarrow> world \<times> exn option" where
  "executeDeployment io w deploymentId projectId environmentId userId =
     run io deploymentId projectId environmentId (SetBuilding, w)"

text \<open>The queries of a list all complete.\<close>

definition completes :: "pipeline_io \<Rightarrow> query list \<Rightarrow> bool" where
  "completes io qs = list_all (\<lambda>q. db_fault io q = None) qs"

text \<open>
  \<^verbatim>\<open>DeploymentLog.logLevel\<close> of the types module:
  \<^verbatim>\<open>'info' | 'warning' | 'error' | 'debug'\<close>.
\<close>

definition log_levels :: "string list" where
  "log_levels = [''info'', ''warning'', ''error'', ''debug'']"

text \<open>
  \<^verbatim>\<open>GET /api/deployments/:id/logs?level=...\<close>: the deployment's entries whose
  \<^verbatim>\<open>log_level\<close> is the string asked for (pagination left out).
\<close>

definition logs_of_level :: "world \<Rightarrow> string \<Rightarrow> string \<Rightarrow> deployment_log list" where
  "logs_of_level w deploymentId level =
     filter (\<lambda>l. log_level l = level)
       (filter (\<lambda>l. log_deployment_id l = deploymentId) (deployment_logs w))"

subsection \<open>Creating deployments\<close>

text \<open>
  Work an operation leaves on the event loop when it returns: an activation of
  \<^verbatim>\<open>executeDeployment\<close> that has not been awaited, or the
  \<^verbatim>\<open>setImmediate\<close> callback of the push handler.
\<close>

datatype task =
    ExecuteDeployment string string string string
  | WebhookReadyCheck string

text \<open>
  Running a task to its end. Both creators attach a \<^verbatim>\<open>catch\<close> to the
  activation that only logs, so a rejected activation leaves its world and nothing more.
  The \<^verbatim>\<open>setImmediate\<close> callback selects the deployment's id and, if it finds
  it, prints a line to the console; it writes nothing and calls nothing else.
\<close>

fun run_task :: "pipeline_io \<Rightarrow> world \<Rightarrow> task \<Rightarrow> world" where
  "run_task io w (ExecuteDeployment deploymentId projectId environmentId userId) =
     fst (executeDeployment io w deploymentId projectId environmentId userId)"
| "run_task io w (WebhookReadyCheck deploymentId) = w"

text \<open>
  The insert both creators run. The id is a fresh \<^verbatim>\<open>uuidv4()\<close>, here an
  argument; a duplicate id or a commit reference longer than the column's 40 characters
  makes the query throw.
\<close>

definition insert_deployment ::
  "world \<Rightarrow> string \<Rightarrow> string \<Rightarrow> string \<Rightarrow> string option \<Rightarrow> string option \<Rightarrow> exn + world" where
  "insert_deployment w deploymentId projectId environmentId commitSha commitMessage =
     (if list_ex (\<lambda>d. dep_id d = deploymentId) (deployments w)
      then Inl (Error ''duplicate key value violates unique constraint'')
      else if (case commitSha of None \<Rightarrow> False | Some c \<Rightarrow> 40 < length c)
      then Inl (Error ''value too long for type character varying(40)'')
      else Inr (w\<lparr>deployments := deployments w @
                  [\<lparr>dep_id = deploymentId, project_id = projectId,
                    environment_id = environmentId, commit_sha = commitSha,
                    commit_message = commitMessage, status = PENDING,
                    duration_seconds = None, deployed_at = None, container_id = None,
                    container_port = None, error_message = None,
                    created_at = now w, updated_at = now w\<rparr>]\<rparr>))"

text \<open>\<^verbatim>\<open>x || null\<close> on an optional string: an empty string is falsy.\<close>

definition truthy_string :: "string option \<Rightarrow> string option" where
  "truthy_string x = (case x of None \<Rightarrow> None | Some s \<Rightarrow> if s = [] then None else Some s)"

text \<open>
  \<^verbatim>\<open>createDeployment\<close>, the API's creator: it checks the project's owner and the
  environment, inserts the pending row, and starts \<^verbatim>\<open>executeDeployment\<close>
  without awaiting it. Of the row it returns, the id is kept.
\<close>

definition createDeployment ::
  "world \<Rightarrow> string \<Rightarrow> string \<Rightarrow> string \<Rightarrow> string \<Rightarrow> string option \<Rightarrow> string option
     \<Rightarrow> exn + world \<times> string \<times> task list" where
  "createDeployment w deploymentId projectId userId environmentId commitSha commitMessage =
     (if \<not> list_ex (\<lambda>p. p_id p = projectId \<and> user_id p = userId \<and> p_deleted_at p = None)
              (projects w)
      then Inl (ApiError 404 ''PROJECT_NOT_FOUND'' ''Project not found'')
      else if \<not> list_ex (\<lambda>e. e_id e = environmentId \<and> e_project_id e = projectId \<and>
                               e_deleted_at e = None) (environments w)
      then Inl (ApiError 404 ''NOT_FOUND'' ''Environment not found'')
      else (case insert_deployment w deploymentId projectId environmentId
                   (truthy_string commitSha) (truthy_string commitMessage) of
              Inl e \<Rightarrow> Inl e
            | Inr w' \<Rightarrow>
                Inr (w', deploymentId,
                     [ExecuteDeployment deploymentId projectId environmentId userId])))"

text \<open>
  \<^verbatim>\<open>executeWebhookDeployment\<close>: looks the deployment and its project's owner up and
  starts \<^verbatim>\<open>executeDeployment\<close> without awaiting it; if either is missing it only
  logs. No file of the repository calls it.
\<close>

definition executeWebhookDeployment :: "world \<Rightarrow> string \<Rightarrow> task list" where
  "executeWebhookDeployment w deploymentId =
     (case filter (\<lambda>d. dep_id d = deploymentId) (deployments w) of
        [] \<Rightarrow> []
      | deployment # _ \<Rightarrow>
          (case filter (\<lambda>p. p_id p = project_id deployment) (projects w) of
             [] \<Rightarrow> []
           | p # _ \<Rightarrow>
               [ExecuteDeployment (dep_id deployment) (project_id deployment)
                  (environment_id deployment) (user_id p)]))"

section \<open>WebhookService and the webhook route\<close>

text \<open>
  The fields of the parsed push event the handler reads: \<^verbatim>\<open>ref\<close>,
  \<^verbatim>\<open>after\<close>, \<^verbatim>\<open>pusher.name\<close> and \<^verbatim>\<open>sender.login\<close>.
\<close>

record push_payload =
  payload_ref :: "string option"
  payload_after :: "string option"
  pusher_name :: "string option"
  sender_login :: "string option"

text \<open>\<^verbatim>\<open>x || d\<close> on an optional string.\<close>

definition js_or :: "string option \<Rightarrow> string \<Rightarrow> string" where
  "js_or x d = (case truthy_string x of None \<Rightarrow> d | Some s \<Rightarrow> s)"

text \<open>\<^verbatim>\<open>ref.split('/').pop()\<close>: what follows the last slash.\<close>

definition last_segment :: "string \<Rightarrow> string" where
  "last_segment s = rev (takeWhile (\<lambda>c. c \<noteq> CHR ''/'') (rev s))"

text \<open>
  \<^verbatim>\<open>ORDER BY name ASC LIMIT 1\<close>, with names compared byte by byte (the order of
  the database's collation is not fixed by the repository).
\<close>

fun name_le :: "string \<Rightarrow> string \<Rightarrow> bool" where
  "name_le [] ys = True"
| "name_le (x # xs) [] = False"
| "name_le (x # xs) (y # ys) =
     ((of_char x :: nat) < of_char y \<or> (x = y \<and> name_le xs ys))"

fun first_by_name :: "environment list \<Rightarrow> environment option" where
  "first_by_name [] = None"
| "first_by_name (e # es) =
     (case first_by_name es of
        None \<Rightarrow> Some e
      | Some m \<Rightarrow> if name_le (e_name e) (e_name m) then Some e else Some m)"

text \<open>
  The handler's result object \<^verbatim>\<open>{success, deploymentId?, message}\<close>.
\<close>

datatype push_result = PushResult bool "string option" string

text \<open>
  \<^verbatim>\<open>handlePushWebhook\<close>. It returns the world, its result object, and what it
  left on the event loop. A throw inside (the insert's) is caught and becomes a failure
  result.
\<close>

definition handlePushWebhook ::
  "world \<Rightarrow> string \<Rightarrow> push_payload \<Rightarrow> string \<Rightarrow> world \<times> push_result \<times> task list" where
  "handlePushWebhook w deploymentId payload projectId =
     (case filter (\<lambda>p. p_id p = projectId \<and> p_deleted_at p = None) (projects w) of
        [] \<Rightarrow> (w, PushResult False None ''Project not found'', [])
      | project # _ \<Rightarrow>
          (let ref = js_or (payload_ref payload) '''';
               branch = js_or (Some (last_segment ref)) ''main''
           in case first_by_name
                     (filter (\<lambda>e. e_project_id e = projectId \<and> e_deleted_at e = None)
                        (environments w)) of
                None \<Rightarrow>
                  (w, PushResult False None ''No environment configured for this project'', [])
              | Some env \<Rightarrow>
                  if e_id env = []
                  then (w, PushResult False None ''No environment configured for this project'', [])
                  else
                    (let commit = js_or (payload_after payload) ''unknown'';
                         committer = js_or (pusher_name payload)
                                       (js_or (sender_login payload) ''Unknown'');
                         commitMessage = ''Webhook deployment from '' @ committer @ '' on '' @ branch
                     in case insert_deployment w deploymentId projectId (e_id env)
                               (Some commit) (Some commitMessage) of
                          Inl error \<Rightarrow>
                            (w, PushResult False None
                                  (''Webhook processing failed: '' @ js_string_of error), [])
                        | Inr w' \<Rightarrow>
                            (w', PushResult True (Some deploymentId)
                                   (''Deployment triggered for '' @ branch @ '' branch''),
                             [WebhookReadyCheck deploymentId]))))"

text \<open>
  \<^verbatim>\<open>verifySignature\<close>. The keyed hash (HMAC-SHA256 of the payload under the
  secret, in hexadecimal) comes from the platform's crypto library and is a parameter.
  Updating the hash with an undefined payload throws; so does the constant-time
  comparison when the two buffers differ in length. Otherwise the comparison's boolean is
  returned.
\<close>

definition verifySignature ::
  "(string \<Rightarrow> string \<Rightarrow> string) \<Rightarrow> string option \<Rightarrow> string \<Rightarrow> string \<Rightarrow> exn + bool" where
  "verifySignature hmac_hex payload signature secret =
     (case payload of
        None \<Rightarrow> Inl (Error ''The data argument must be of type string or Buffer'')
      | Some body \<Rightarrow>
          (let hash = ''sha256='' @ hmac_hex secret body
           in if length hash \<noteq> length signature
              then Inl (Error ''Input buffers must have the same byte length'')
              else Inr (hash = signature)))"

text \<open>
  What the route sends: \<^verbatim>\<open>sendError(res, status, code, message)\<close> or
  \<^verbatim>\<open>sendSuccess(res, data, message)\<close>, of whose data only the deployment id is
  kept.
\<close>

datatype http_response =
    SendError nat string string
  | SendSuccess "string option" string

text \<open>
  The route \<^verbatim>\<open>POST /github/:projectId\<close> of the router. \<open>signature\<close> is the
  \<^verbatim>\<open>x-hub-signature-256\<close> header, \<open>rawBody\<close> is \<^verbatim>\<open>req.rawBody\<close>
  (undefined unless the router's middleware kept it), \<open>eventType\<close> the
  \<^verbatim>\<open>x-github-event\<close> header, \<open>body\<close> the parsed body. The call of
  \<^verbatim>\<open>verifySignature\<close> sits in a \<^verbatim>\<open>try\<close> whose \<^verbatim>\<open>catch\<close>
  answers 401; its result is not bound.
\<close>

definition github_webhook ::
  "(string \<Rightarrow> string \<Rightarrow> string) \<Rightarrow> world \<Rightarrow> string \<Rightarrow> string \<Rightarrow> string option \<Rightarrow> string option
     \<Rightarrow> string option \<Rightarrow> push_payload \<Rightarrow> world \<times> http_response \<times> task list" where
  "github_webhook hmac_hex w deploymentId projectId signature rawBody eventType body =
     (case truthy_string signature of
        None \<Rightarrow>
          (w, SendError 401 ''MISSING_SIGNATURE'' ''Missing X-Hub-Signature-256 header'', [])
      | Some sig \<Rightarrow>
          (case filter (\<lambda>p. p_id p = projectId \<and> p_deleted_at p = None) (projects w) of
             [] \<Rightarrow> (w, SendError 404 ''PROJECT_NOT_FOUND'' ''Project not found'', [])
           | p # _ \<Rightarrow>
               (case truthy_string (webhook_secret p) of
                  None \<Rightarrow>
                    (w, SendError 400 ''WEBHOOK_NOT_CONFIGURED''
                          ''Webhook is not configured for this project. Generate a secret first.'',
                     [])
                | Some webhookSecret \<Rightarrow>
                    (case verifySignature hmac_hex rawBody sig webhookSecret of
                       Inl error \<Rightarrow>
                         (w, SendError 401 ''INVALID_SIGNATURE'' ''Invalid webhook signature'', [])
                     | Inr verified \<Rightarrow>
                         if eventType = Some ''push''
                         then (case handlePushWebhook w deploymentId body projectId of
                                 (w', PushResult ok depId msg, tasks) \<Rightarrow>
                                   if \<not> ok then (w', SendError 400 ''WEBHOOK_FAILED'' msg, tasks)
                                   else (w', SendSuccess depId msg, tasks))
                         else if eventType = Some ''ping''
                         then (w, SendSuccess None ''Pong!'', [])
                         else (w, SendSuccess None
                                    (''Event type '' @ [CHR 0x27] @ js_or eventType ''undefined''
                                       @ [CHR 0x27] @ '' is not handled''), [])))))"

text \<open>
  What \<^verbatim>\<open>req.body\<close> holds when the webhook router is reached: a buffer of the
  raw bytes, or an object, of which its number of own keys and the fields the push handler
  reads are kept.
\<close>

datatype req_body = Buffer string | Object nat push_payload

text \<open>
  \<^verbatim>\<open>parseWebhookBody\<close>, the router's middleware. Only for a buffer does it keep
  the raw body (as \<^verbatim>\<open>req.rawBody\<close>) and parse it, answering 400 when the parse
  throws; any other body passes unchanged and \<^verbatim>\<open>req.rawBody\<close> stays undefined.
  \<^verbatim>\<open>JSON.parse\<close> is the platform's: \<open>json_parse\<close> gives the push event read
  from a text, or \<open>None\<close> where it throws.
\<close>

definition parseWebhookBody ::
  "(string \<Rightarrow> push_payload option) \<Rightarrow> req_body \<Rightarrow> http_response + string option \<times> push_payload" where
  "parseWebhookBody json_parse body =
     (case body of
        Buffer bytes \<Rightarrow>
          (case json_parse bytes of
             None \<Rightarrow> Inl (SendError 400 ''INVALID_JSON'' ''Request body is not valid JSON'')
           | Some parsed \<Rightarrow> Inr (Some bytes, parsed))
      | Object keys parsed \<Rightarrow> Inr (None, parsed))"

text \<open>The router: its middleware, then the route.\<close>

definition webhook_router ::
  "(string \<Rightarrow> string \<Rightarrow> string) \<Rightarrow> (string \<Rightarrow> push_payload option) \<Rightarrow> world \<Rightarrow> string \<Rightarrow> string
     \<Rightarrow> string option \<Rightarrow> string option \<Rightarrow> req_body \<Rightarrow> world \<times> http_response \<times> task list" where
  "webhook_router hmac_hex json_parse w deploymentId projectId signature eventType body =
     (case parseWebhookBody json_parse body of
        Inl response \<Rightarrow> (w, response, [])
      | Inr (rawBody, parsed) \<Rightarrow>
          github_webhook hmac_hex w deploymentId projectId signature rawBody eventType parsed)"

subsection \<open>The application around the router\<close>

text \<open>
  \<^verbatim>\<open>createApp\<close> puts in front of every router: \<^verbatim>\<open>express.json\<close> and
  \<^verbatim>\<open>express.urlencoded\<close>, then its own content-type check, and behind them the
  error handler. The two body parsers are the framework's: \<open>body_parsers\<close> gives what
  they leave in \<^verbatim>\<open>req.body\<close> for a request, always an object (its number of own
  keys, and the fields the push handler reads), or the error they throw. No parser that
  leaves a buffer is mounted. Of a request the model keeps what this code looks at:
  whether \<^verbatim>\<open>req.is('json')\<close> holds, and the content-type, signature and event
  headers.
\<close>

record http_request =
  is_json :: bool
  h_content_type :: "string option"
  h_signature :: "string option"
  h_event :: "string option"

text \<open>\<^verbatim>\<open>s.includes(t)\<close>.\<close>

fun js_includes :: "string \<Rightarrow> string \<Rightarrow> bool" where
  "js_includes [] t = (t = [])"
| "js_includes (c # cs) t = (take (length t) (c # cs) = t \<or> js_includes cs t)"

text \<open>
  The content-type check for a \<^verbatim>\<open>POST\<close>: a request that is not JSON and has an
  empty body object is answered 400 unless its content type mentions
  \<^verbatim>\<open>application/json\<close>.
\<close>

definition content_type_check :: "http_request \<Rightarrow> nat \<Rightarrow> http_response option" where
  "content_type_check req keys =
     (if \<not> is_json req \<and> keys = 0 \<and>
         (case h_content_type req of
            None \<Rightarrow> True
          | Some contentType \<Rightarrow> contentType = [] \<or> \<not> js_includes contentType ''application/json'')
      then Some (SendError 400 ''INVALID_CONTENT_TYPE''
                   ''Content-Type: application/json header is required for this request'')
      else None)"

text \<open>\<^verbatim>\<open>errorHandler\<close>: an \<open>ApiError\<close> is sent as it is, anything else as a 500.\<close>

fun errorHandler :: "exn \<Rightarrow> http_response" where
  "errorHandler (ApiError statusCode errorCode m) = SendError statusCode errorCode m"
| "errorHandler e = SendError 500 ''INTERNAL_SERVER_ERROR'' ''An unexpected error occurred''"

text \<open>
  \<^verbatim>\<open>POST /webhooks/github/:projectId\<close> as \<^verbatim>\<open>createApp\<close> serves it.
\<close>

definition createApp_webhook ::
  "(string \<Rightarrow> string \<Rightarrow> string) \<Rightarrow> (string \<Rightarrow> push_payload option)
     \<Rightarrow> (http_request \<Rightarrow> exn + nat \<times> push_payload) \<Rightarrow> world \<Rightarrow> string \<Rightarrow> string \<Rightarrow> http_request
     \<Rightarrow> world \<times> http_response \<times> task list" where
  "createApp_webhook hmac_hex json_parse body_parsers w deploymentId projectId req =
     (case body_parsers req of
        Inl error \<Rightarrow> (w, errorHandler error, [])
      | Inr (keys, parsed) \<Rightarrow>
          (case content_type_check req keys of
             Some response \<Rightarrow> (w, response, [])
           | None \<Rightarrow>
               webhook_router hmac_hex json_parse w deploymentId projectId
                 (h_signature req) (h_event req) (Object keys parsed)))"

text \<open>
  A stand-in for the keyed hash, used only to evaluate the route at concrete requests:
  64 characters that depend on the key and on the payload.
\<close>

definition stand_in_hmac :: "string \<Rightarrow> string \<Rightarrow> string" where
  "stand_in_hmac secret payload = take 64 (secret @ payload @ replicate 64 (CHR ''0''))"

definition example_push :: push_payload where
  "example_push =
     \<lparr>payload_ref = Some ''refs/heads/main'', payload_after = Some ''0123abcd'',
      pusher_name = Some ''ada'', sender_login = None\<rparr>"

section \<open>Example states\<close>

text \<open>
  One project owned by user \<open>u1\<close>, with one environment and one pending deployment; the
  states and outcomes below are the concrete inputs the theorems are evaluated at.
\<close>

definition example_deployment :: deployment where
  "example_deployment =
     \<lparr>dep_id = ''d1'', project_id = ''p1'', environment_id = ''e1'', commit_sha = None,
      commit_message = None, status = PENDING, duration_seconds = None, deployed_at = None,
      container_id = None, container_port = None, error_message = None,
      created_at = 100, updated_at = 100\<rparr>"

definition example_world :: world where
  "example_world =
     \<lparr>deployments = [example_deployment],
      deployment_logs = [],
      projects = [\<lparr>p_id = ''p1'', user_id = ''u1'', slug = ''demo'',
                   repository_url = Some ''https://git.example/demo.git'',
                   webhook_secret = Some ''s3cret'', p_deleted_at = None\<rparr>],
      environments = [\<lparr>e_id = ''e1'', e_project_id = ''p1'', e_name = ''production'',
                       environment_variables = [(''APP_NAME'', JsonString ''demo'')],
                       e_deleted_at = None\<rparr>],
      engine = [],
      docker_builds = 0,
      now = 200\<rparr>"

text \<open>
  An activation in which every outside call succeeds and no query is refused, taking 42
  seconds.
\<close>

definition example_io :: pipeline_io where
  "example_io =
     \<lparr>startTime = 1000, endTime = 43500, catchTime = 43500, uuid8 = ''ab12cd34'',
      git_clone = None, staging = None, detected_framework = ''express'',
      docker_build = None, randomOffset = 5, newContainerId = ''c1'', nginx = None,
      db_fault = (\<lambda>q. None)\<rparr>"

text \<open>
  The same project with an earlier successful deployment \<open>d0\<close> of the same environment,
  whose container \<open>c0\<close> is running.
\<close>

definition previous_deployment :: deployment where
  "previous_deployment =
     \<lparr>dep_id = ''d0'', project_id = ''p1'', environment_id = ''e1'', commit_sha = None,
      commit_message = None, status = SUCCESS, duration_seconds = Some 30,
      deployed_at = Some 60, container_id = Some ''c0'', container_port = Some 8001,
      error_message = None, created_at = 50, updated_at = 60\<rparr>"

definition example_container :: container where
  "example_container =
     \<lparr>cid = ''c0'', cname = ''gilgal-p1-e1'', cimage = ''gilgal-p1-00000000'',
      cenv = [''APP_NAME=demo'', ''NODE_ENV=production''], chost_port = 8001,
      ccontainer_port = 3000, running = True\<rparr>"

definition history_world :: world where
  "history_world =
     example_world\<lparr>deployments := [previous_deployment, example_deployment],
                   engine := [example_container]\<rparr>"

text \<open>
  The example state with another project's container already bound to host port 8005.
\<close>

definition port_taken_world :: world where
  "port_taken_world =
     example_world\<lparr>engine :=
       [\<lparr>cid = ''c9'', cname = ''gilgal-p9-e9'', cimage = ''gilgal-p9-11111111'',
         cenv = [''NODE_ENV=production''], chost_port = 8005, ccontainer_port = 3000,
         running = True\<rparr>]\<rparr>"

text \<open>
  A deployment row in status \<open>building\<close> whose \<^verbatim>\<open>container_id\<close> column names the
  running container \<open>c0\<close>.
\<close>

definition building_world :: world where
  "building_world =
     example_world\<lparr>deployments :=
                     [example_deployment\<lparr>status := BUILDING, container_id := Some ''c0''\<rparr>],
                   engine := [example_container]\<rparr>"


text \<open>
  The example state with variables of several JSON types:
  \<^verbatim>\<open>{APP_NAME: 'demo', REPLICAS: 2, DEBUG: false}\<close>.
\<close>

definition typed_env_world :: world where
  "typed_env_world =
     example_world\<lparr>environments :=
       [\<lparr>e_id = ''e1'', e_project_id = ''p1'', e_name = ''production'',
         environment_variables =
           [(''APP_NAME'', JsonString ''demo''), (''REPLICAS'', JsonNumber ''2''),
            (''DEBUG'', JsonBool False)],
         e_deleted_at = None\<rparr>]\<rparr>"

text \<open>
  The example state with a supplied \<^verbatim>\<open>NODE_ENV\<close>, a name that contains
  \<^verbatim>\<open>=\<close> and a \<^verbatim>\<open>null\<close> value:
  \<^verbatim>\<open>{NODE_ENV: 'development', 'A=B': 'c', DEBUG: null}\<close>.
\<close>

definition node_env_world :: world where
  "node_env_world =
     example_world\<lparr>environments :=
       [\<lparr>e_id = ''e1'', e_project_id = ''p1'', e_name = ''production'',
         environment_variables =
           [(''NODE_ENV'', JsonString ''development''), (''A=B'', JsonString ''c''),
            (''DEBUG'', JsonNull)],
         e_deleted_at = None\<rparr>]\<rparr>"

text \<open>
  A push request with a JSON body whose signature header is the keyed hash of the body's
  bytes (here \<open>body-bytes\<close>) under the key \<open>guess\<close>; the project's secret is
  \<open>s3cret\<close>.
\<close>

definition example_request :: http_request where
  "example_request =
     \<lparr>is_json = True, h_content_type = Some ''application/json'',
      h_signature = Some (''sha256='' @ stand_in_hmac ''guess'' ''body-bytes''),
      h_event = Some ''push''\<rparr>"

section \<open>Properties of the container runtime\<close>

lemma split_entry_append:
  "CHR ''='' \<notin> set k \<Longrightarrow> split_entry (k @ CHR ''='' # v) = (k, v)"
  by (induction k) auto

lemma stopContainer_absent:
  "resolve d ref = None \<Longrightarrow> stopContainer d ref = Inr d"
  by (simp add: stopContainer_def inspect_def remove_def)

text \<open>
  C9. \<^verbatim>\<open>stopContainer\<close> never raises, whatever the engine holds: it returns normally
  for every reference; on a reference the engine does not know it returns with the engine
  unchanged; on a container that is already stopped it returns and the container is
  removed; and a second call on the state the first one left returns normally too.
\<close>

theorem stopContainer_idempotent:
  "(\<exists>d'. stopContainer d ref = Inr d') \<and>
   (resolve d ref = None \<longrightarrow> stopContainer d ref = Inr d) \<and>
   (\<forall>c. resolve d ref = Some c \<and> \<not> running c \<longrightarrow>
        stopContainer d ref = Inr (filter (\<lambda>x. x \<noteq> c) d)) \<and>
   (\<exists>d' d''. stopContainer d ref = Inr d' \<and> stopContainer d' ref = Inr d'')"
proof -
  have total: "\<exists>d'. stopContainer d0 ref = Inr d'" for d0
    by (simp add: stopContainer_def Let_def)
  have stopped: "stopContainer d ref = Inr (filter (\<lambda>x. x \<noteq> c) d)"
    if "resolve d ref = Some c" "\<not> running c" for c
    using that by (simp add: stopContainer_def inspect_def remove_def)
  from total [of d] obtain d' where 1: "stopContainer d ref = Inr d'" by blast
  from total [of d'] obtain d'' where 2: "stopContainer d' ref = Inr d''" by blast
  show ?thesis
    using 1 2 stopped stopContainer_absent by blast
qed

theorem stopContainer_idempotent_witness:
  "resolve [] ''c1'' = None \<and> stopContainer [] ''c1'' = Inr [] \<and>
   resolve [\<lparr>cid = ''c1'', cname = ''gilgal-p-e'', cimage = ''img'', cenv = [],
             chost_port = 8001, ccontainer_port = 3000, running = False\<rparr>] ''c1''
     = Some \<lparr>cid = ''c1'', cname = ''gilgal-p-e'', cimage = ''img'', cenv = [],
             chost_port = 8001, ccontainer_port = 3000, running = False\<rparr> \<and>
   stopContainer [\<lparr>cid = ''c1'', cname = ''gilgal-p-e'', cimage = ''img'', cenv = [],
             chost_port = 8001, ccontainer_port = 3000, running = False\<rparr>] ''c1'' = Inr []"
proof -
  let ?c = "\<lparr>cid = ''c1'', cname = ''gilgal-p-e'', cimage = ''img'', cenv = [],
             chost_port = 8001, ccontainer_port = 3000, running = False\<rparr>"
  have a: "resolve [] ''c1'' = None"
    by (simp add: resolve_def)
  have b: "resolve [?c] ''c1'' = Some ?c"
    by (simp add: resolve_def refers_def)
  have c: "\<not> running ?c" by simp
  from stopContainer_idempotent [of "[]" "''c1''"] a
  have 1: "stopContainer [] ''c1'' = Inr []" by blast
  from stopContainer_idempotent [of "[?c]" "''c1''"] b c
  have 2: "stopContainer [?c] ''c1'' = Inr (filter (\<lambda>x. x \<noteq> ?c) [?c])" by blast
  show ?thesis using a b 1 2 by simp
qed
lemma find_append_None:
  "find P xs = None \<Longrightarrow> find P (xs @ ys) = find P ys"
  by (induction xs) (auto split: if_splits)

lemma map_split_injected_env:
  "\<forall>(k, v) \<in> set vars. CHR ''='' \<notin> set k \<Longrightarrow>
   map split_entry (injected_env vars)
     = map (\<lambda>(k, v). (k, to_js_string v)) vars @ [(''NODE_ENV'', ''production'')]"
proof -
  assume names: "\<forall>(k, v) \<in> set vars. CHR ''='' \<notin> set k"
  have "map split_entry (map (\<lambda>(key, value). key @ ''='' @ to_js_string value) vars)
          = map (\<lambda>(k, v). (k, to_js_string v)) vars"
    using names by (induction vars) (auto simp: split_entry_append)
  moreover have "split_entry ''NODE_ENV=production'' = (''NODE_ENV'', ''production'')"
    by simp
  ultimately show ?thesis
    by (simp add: injected_env_def)
qed

lemma getenv_injected_env:
  assumes names: "\<forall>(k, v) \<in> set vars. CHR ''='' \<notin> set k"
    and dist: "distinct (map fst vars)"
  shows "container_getenv (injected_env vars) ''NODE_ENV'' = Some ''production''"
    and "(k, v) \<in> set vars \<Longrightarrow> k \<noteq> ''NODE_ENV'' \<Longrightarrow>
         container_getenv (injected_env vars) k = Some (to_js_string v)"
proof -
  let ?read = "map (\<lambda>(k, v). (k, to_js_string v)) vars"
  note m = map_split_injected_env [OF names]
  show "container_getenv (injected_env vars) ''NODE_ENV'' = Some ''production''"
    by (simp add: container_getenv_def m)
  assume kv: "(k, v) \<in> set vars" and k: "k \<noteq> ''NODE_ENV''"
  have fst: "map fst ?read = map fst vars"
    by (induction vars) auto
  from dist have "distinct (map fst ?read)"
    by (simp only: fst)
  then have "distinct (map fst (rev ?read))"
    by (simp only: rev_map [symmetric] distinct_rev)
  moreover from kv have "(k, to_js_string v) \<in> set (rev ?read)"
    by force
  ultimately have "map_of (rev ?read) k = Some (to_js_string v)"
    by (rule map_of_is_SomeI)
  with k show "container_getenv (injected_env vars) k = Some (to_js_string v)"
    by (simp add: container_getenv_def m)
qed

lemma runContainer_created:
  assumes run: "runContainer d rnd newId img p e vars fw = (d', Inr (c, port))"
  shows "c = newId \<and> port = allocatePort rnd \<and>
         (\<exists>ct. ct \<in> set d' \<and> cid ct = newId \<and> running ct \<and> cimage ct = img \<and>
               cenv ct = injected_env vars)"
proof -
  define name where "name = ''gilgal-'' @ p @ ''-'' @ take 8 e"
  define d1 where "d1 =
    (case inspect d name of
       Inl e \<Rightarrow> d
     | Inr containerData \<Rightarrow>
         (let d0 = (case stop d name of Inl e \<Rightarrow> d | Inr s \<Rightarrow> s)
          in case remove d0 name of Inl e \<Rightarrow> d0 | Inr r \<Rightarrow> r))"
  define c0 where "c0 =
    \<lparr>cid = newId, cname = name, cimage = img, cenv = injected_env vars,
     chost_port = allocatePort rnd,
     ccontainer_port = (if fw = ''react'' \<or> fw = ''next'' then 80 else 3000),
     running = False\<rparr>"
  from run have r: "(case createContainer d1 c0 of
        Inl e \<Rightarrow> (d1, Inl (Error (''Failed to run Docker container: '' @ js_string_of e)))
      | Inr d2 \<Rightarrow>
          (case start d2 newId of
             Inl e \<Rightarrow> (d2, Inl (Error (''Failed to run Docker container: '' @ js_string_of e)))
           | Inr d3 \<Rightarrow> (d3, Inr (newId, allocatePort rnd)))) = (d', Inr (c, port))"
    unfolding runContainer_def Let_def name_def d1_def c0_def .
  then obtain d2 where cr: "createContainer d1 c0 = Inr d2"
    by (cases "createContainer d1 c0") auto
  with r obtain d3 where st: "start d2 newId = Inr d3"
    by (cases "start d2 newId") auto
  from r cr st have res: "d' = d3" "c = newId" "port = allocatePort rnd"
    by auto
  from cr have fresh: "\<not> list_ex (\<lambda>x. refers (cname c0) x \<or> refers (cid c0) x) d1"
    and d2: "d2 = d1 @ [c0]"
    by (auto simp: createContainer_def c0_def split: if_splits)
  from fresh have "find (refers newId) d1 = None"
    by (auto simp: find_None_iff list_ex_iff c0_def)
  then have "resolve d2 newId = Some c0"
    by (simp add: resolve_def d2 find_append_None refers_def c0_def)
  with st have "d3 = map (\<lambda>x. if x = c0 then x\<lparr>running := True\<rparr> else x) d2"
    by (auto simp: start_def split: if_splits)
  then have "c0\<lparr>running := True\<rparr> \<in> set d3"
    by (auto simp: d2)
  then show ?thesis
    using res by (intro conjI exI [of _ "c0\<lparr>running := True\<rparr>"]) (simp_all add: c0_def)
qed

section \<open>Properties of the deployment pipeline\<close>

lemma buildImage_throws_Error:
  "buildImage io pid i repo = (runs, Inl error) \<Longrightarrow> \<exists>m. error = Error m"
  by (auto simp: buildImage_def Let_def split: option.splits sum.splits if_splits prod.splits)

lemma runContainer_throws_Error:
  "runContainer d r n img pid eid vars fw = (d', Inl error) \<Longrightarrow> \<exists>m. error = Error m"
  by (auto simp: runContainer_def Let_def split: sum.splits)

lemmas pipeline_defs =
  executeDeployment_def update_deployment_def addDeploymentLog_def comp_def
  repository_of_def variables_of_def completes_def

lemma run_catch_block:
  "run io i pid eid (SetFailed error, w) =
     (case db_fault io QSetFailed of
        Some rejection \<Rightarrow> (w, Some rejection)
      | None \<Rightarrow>
          (case db_fault io QLogFailed of
             Some rejection \<Rightarrow>
               (update_deployment i
                  (\<lambda>d. d\<lparr>status := FAILED, error_message := Some (error_message_of error),
                         duration_seconds := Some (catch_duration io), updated_at := now w\<rparr>) w,
                Some rejection)
           | None \<Rightarrow>
               (addDeploymentLog
                  (update_deployment i
                     (\<lambda>d. d\<lparr>status := FAILED, error_message := Some (error_message_of error),
                            duration_seconds := Some (catch_duration io), updated_at := now w\<rparr>) w)
                  i ''error'' (''Deployment failed: '' @ error_message_of error),
                None)))"
  by (simp split: option.splits add: update_deployment_def)

lemma build_throws:
  assumes "completes io [QSetBuilding, QLogStarting, QReadEnvironment, QReadProject, QLogBuilding]"
    and "buildImage io pid i (repository_of w pid) = (runs, Inl error)"
  shows "executeDeployment io w i pid eid uid =
     run io i pid eid
       (SetFailed error,
        (addDeploymentLog
           (addDeploymentLog (update_deployment i (\<lambda>d. d\<lparr>status := BUILDING\<rparr>) w)
              i ''info'' ''Starting deployment pipeline...'')
           i ''info'' ''Building Docker image...'')
        \<lparr>docker_builds := docker_builds w + runs\<rparr>)"
  using assms
  by (simp add: executeDeployment_def completes_def repository_of_def variables_of_def
      update_deployment_def addDeploymentLog_def comp_def split: option.splits)

lemma run_throws:
  assumes "completes io [QSetBuilding, QLogStarting, QReadEnvironment, QReadProject, QLogBuilding,
                         QLogBuilt, QLogStartingContainer]"
    and "buildImage io pid i (repository_of w pid) = (runs, Inr (imageId, imageName, framework))"
    and "runContainer (engine w) (randomOffset io) (newContainerId io) imageName pid eid
           (variables_of w eid) framework = (d, Inl error)"
  shows "executeDeployment io w i pid eid uid =
     run io i pid eid
       (SetFailed error,
        (addDeploymentLog
           (addDeploymentLog
              (addDeploymentLog
                 (addDeploymentLog (update_deployment i (\<lambda>d. d\<lparr>status := BUILDING\<rparr>) w)
                    i ''info'' ''Starting deployment pipeline...'')
                 i ''info'' ''Building Docker image...'')
              i ''info'' (''Docker image built: '' @ imageName))
           i ''info'' ''Starting container...'')
        \<lparr>docker_builds := docker_builds w + runs, engine := d\<rparr>)"
  using assms
  by (simp add: executeDeployment_def completes_def repository_of_def variables_of_def
      update_deployment_def addDeploymentLog_def comp_def split: option.splits)

lemma run_succeeds:
  assumes "db_fault io = (\<lambda>q. None)"
    and "buildImage io pid i (repository_of w pid) = (runs, Inr (imageId, imageName, framework))"
    and "runContainer (engine w) (randomOffset io) (newContainerId io) imageName pid eid
           (variables_of w eid) framework = (d, Inr (containerId, port))"
  shows "executeDeployment io w i pid eid uid =
     (w\<lparr>deployments :=
          map (\<lambda>x. if dep_id x = i
                   then x\<lparr>status := SUCCESS, container_id := Some containerId,
                          container_port := Some port, duration_seconds := Some (duration io),
                          deployed_at := Some (now w), updated_at := now w\<rparr>
                   else x) (deployments w),
       deployment_logs := deployment_logs w @
         [\<lparr>log_deployment_id = i, log_level = ''info'',
             message = ''Starting deployment pipeline...''\<rparr>,
          \<lparr>log_deployment_id = i, log_level = ''info'', message = ''Building Docker image...''\<rparr>,
          \<lparr>log_deployment_id = i, log_level = ''info'',
             message = ''Docker image built: '' @ imageName\<rparr>,
          \<lparr>log_deployment_id = i, log_level = ''info'', message = ''Starting container...''\<rparr>,
          \<lparr>log_deployment_id = i, log_level = ''info'',
             message = ''Container running on port '' @ show_nat port\<rparr>,
          \<lparr>log_deployment_id = i, log_level = ''info'',
             message = ''Deployment completed successfully in '' @ show_int (duration io) @ ''s''\<rparr>,
          \<lparr>log_deployment_id = i, log_level = ''info'',
             message = ''Updating nginx configuration...''\<rparr>,
          (case nginx io of
             None \<Rightarrow>
               \<lparr>log_deployment_id = i, log_level = ''info'',
                message = ''Nginx configuration updated - app now accessible at subdomain''\<rparr>
           | Some nginxError \<Rightarrow>
               \<lparr>log_deployment_id = i, log_level = ''warn'',
                message = ''Deployment successful but nginx config update failed (may require manual setup)''\<rparr>)],
       engine := d, docker_builds := docker_builds w + runs\<rparr>, None)"
  using assms by (cases "nginx io") (simp_all add: pipeline_defs)


text \<open>
  C4 as the code has it. An exception at the build step or at the run step is an
  \<open>Error\<close> and lands in the \<^verbatim>\<open>catch\<close> block, which awaits two queries
  that nothing guards. If the database completes both, the activation ends normally with
  the deployment \<open>failed\<close>, the error's message as its \<^verbatim>\<open>error_message\<close>,
  the seconds between entry and the \<^verbatim>\<open>catch\<close> block (rounded down, negative
  if the clock was set back) as its duration, and one \<open>error\<close> log entry appended. If
  the database refuses the update, the activation's promise rejects with that error and
  the deployment is left as it was, \<open>building\<close>; if it refuses the log insert, the
  promise rejects after the update. The final state is given exactly, so the build and the
  run step are each entered once; \<open>runs\<close> is the number of times
  \<^verbatim>\<open>buildImage\<close> ran \<^verbatim>\<open>docker build\<close>.
\<close>

theorem pipeline_failure_handled:
  "(completes io [QSetBuilding, QLogStarting, QReadEnvironment, QReadProject, QLogBuilding] \<and>
    buildImage io projectId deploymentId (repository_of w projectId) = (runs, Inl error) \<longrightarrow>
      (\<exists>m. error = Error m \<and>
        (let w1 = (addDeploymentLog
                     (addDeploymentLog
                        (update_deployment deploymentId (\<lambda>d. d\<lparr>status := BUILDING\<rparr>) w)
                        deploymentId ''info'' ''Starting deployment pipeline...'')
                     deploymentId ''info'' ''Building Docker image...'')
                  \<lparr>docker_builds := docker_builds w + runs\<rparr>;
             w2 = update_deployment deploymentId
                    (\<lambda>d. d\<lparr>status := FAILED, error_message := Some m,
                           duration_seconds := Some ((catchTime io - startTime io) div 1000),
                           updated_at := now w\<rparr>) w1;
             w3 = addDeploymentLog w2 deploymentId ''error'' (''Deployment failed: '' @ m)
         in executeDeployment io w deploymentId projectId environmentId userId =
              (case db_fault io QSetFailed of
                 Some rejection \<Rightarrow> (w1, Some rejection)
               | None \<Rightarrow>
                   (case db_fault io QLogFailed of
                      Some rejection \<Rightarrow> (w2, Some rejection)
                    | None \<Rightarrow> (w3, None)))))) \<and>
   (completes io [QSetBuilding, QLogStarting, QReadEnvironment, QReadProject, QLogBuilding,
                  QLogBuilt, QLogStartingContainer] \<and>
    buildImage io projectId deploymentId (repository_of w projectId)
        = (runs, Inr (imageId, imageName, framework)) \<and>
    runContainer (engine w) (randomOffset io) (newContainerId io) imageName projectId
        environmentId (variables_of w environmentId) framework = (d, Inl error) \<longrightarrow>
      (\<exists>m. error = Error m \<and>
        (let w1 = (addDeploymentLog
                     (addDeploymentLog
                        (addDeploymentLog
                           (addDeploymentLog
                              (update_deployment deploymentId (\<lambda>d. d\<lparr>status := BUILDING\<rparr>) w)
                              deploymentId ''info'' ''Starting deployment pipeline...'')
                           deploymentId ''info'' ''Building Docker image...'')
                        deploymentId ''info'' (''Docker image built: '' @ imageName))
                     deploymentId ''info'' ''Starting container...'')
                  \<lparr>docker_builds := docker_builds w + runs, engine := d\<rparr>;
             w2 = update_deployment deploymentId
                    (\<lambda>d. d\<lparr>status := FAILED, error_message := Some m,
                           duration_seconds := Some ((catchTime io - startTime io) div 1000),
                           updated_at := now w\<rparr>) w1;
             w3 = addDeploymentLog w2 deploymentId ''error'' (''Deployment failed: '' @ m)
         in executeDeployment io w deploymentId projectId environmentId userId =
              (case db_fault io QSetFailed of
                 Some rejection \<Rightarrow> (w1, Some rejection)
               | None \<Rightarrow>
                   (case db_fault io QLogFailed of
                      Some rejection \<Rightarrow> (w2, Some rejection)
                    | None \<Rightarrow> (w3, None))))))"
proof (intro conjI impI)
  assume "completes io [QSetBuilding, QLogStarting, QReadEnvironment, QReadProject, QLogBuilding] \<and>
    buildImage io projectId deploymentId (repository_of w projectId) = (runs, Inl error)"
  then have c: "completes io [QSetBuilding, QLogStarting, QReadEnvironment, QReadProject, QLogBuilding]"
    and b: "buildImage io projectId deploymentId (repository_of w projectId) = (runs, Inl error)"
    by simp_all
  from buildImage_throws_Error [OF b] obtain m where m: "error = Error m" ..
  show "\<exists>m. error = Error m \<and>
        (let w1 = (addDeploymentLog
                     (addDeploymentLog
                        (update_deployment deploymentId (\<lambda>d. d\<lparr>status := BUILDING\<rparr>) w)
                        deploymentId ''info'' ''Starting deployment pipeline...'')
                     deploymentId ''info'' ''Building Docker image...'')
                  \<lparr>docker_builds := docker_builds w + runs\<rparr>;
             w2 = update_deployment deploymentId
                    (\<lambda>d. d\<lparr>status := FAILED, error_message := Some m,
                           duration_seconds := Some ((catchTime io - startTime io) div 1000),
                           updated_at := now w\<rparr>) w1;
             w3 = addDeploymentLog w2 deploymentId ''error'' (''Deployment failed: '' @ m)
         in executeDeployment io w deploymentId projectId environmentId userId =
              (case db_fault io QSetFailed of
                 Some rejection \<Rightarrow> (w1, Some rejection)
               | None \<Rightarrow>
                   (case db_fault io QLogFailed of
                      Some rejection \<Rightarrow> (w2, Some rejection)
                    | None \<Rightarrow> (w3, None))))"
    unfolding build_throws [OF c b, of environmentId userId] run_catch_block m
    by (simp add: Let_def catch_duration_def addDeploymentLog_def update_deployment_def
        split: option.splits)
next
  assume "completes io [QSetBuilding, QLogStarting, QReadEnvironment, QReadProject, QLogBuilding,
                  QLogBuilt, QLogStartingContainer] \<and>
    buildImage io projectId deploymentId (repository_of w projectId)
        = (runs, Inr (imageId, imageName, framework)) \<and>
    runContainer (engine w) (randomOffset io) (newContainerId io) imageName projectId
        environmentId (variables_of w environmentId) framework = (d, Inl error)"
  then have c: "completes io [QSetBuilding, QLogStarting, QReadEnvironment, QReadProject,
                  QLogBuilding, QLogBuilt, QLogStartingContainer]"
    and b: "buildImage io projectId deploymentId (repository_of w projectId)
        = (runs, Inr (imageId, imageName, framework))"
    and r: "runContainer (engine w) (randomOffset io) (newContainerId io) imageName projectId
        environmentId (variables_of w environmentId) framework = (d, Inl error)"
    by simp_all
  from runContainer_throws_Error [OF r] obtain m where m: "error = Error m" ..
  show "\<exists>m. error = Error m \<and>
        (let w1 = (addDeploymentLog
                     (addDeploymentLog
                        (addDeploymentLog
                           (addDeploymentLog
                              (update_deployment deploymentId (\<lambda>d. d\<lparr>status := BUILDING\<rparr>) w)
                              deploymentId ''info'' ''Starting deployment pipeline...'')
                           deploymentId ''info'' ''Building Docker image...'')
                        deploymentId ''info'' (''Docker image built: '' @ imageName))
                     deploymentId ''info'' ''Starting container...'')
                  \<lparr>docker_builds := docker_builds w + runs, engine := d\<rparr>;
             w2 = update_deployment deploymentId
                    (\<lambda>d. d\<lparr>status := FAILED, error_message := Some m,
                           duration_seconds := Some ((catchTime io - startTime io) div 1000),
                           updated_at := now w\<rparr>) w1;
             w3 = addDeploymentLog w2 deploymentId ''error'' (''Deployment failed: '' @ m)
         in executeDeployment io w deploymentId projectId environmentId userId =
              (case db_fault io QSetFailed of
                 Some rejection \<Rightarrow> (w1, Some rejection)
               | None \<Rightarrow>
                   (case db_fault io QLogFailed of
                      Some rejection \<Rightarrow> (w2, Some rejection)
                    | None \<Rightarrow> (w3, None))))"
    unfolding run_throws [OF c b r, of userId] run_catch_block m
    by (simp add: Let_def catch_duration_def addDeploymentLog_def update_deployment_def
        split: option.splits)
qed

text \<open>
  At the example state, three activations whose queries all complete: the clone fails; the
  image build fails, after \<^verbatim>\<open>buildImage\<close> has run \<^verbatim>\<open>docker build\<close>
  twice; the host port is taken, so the start of the new container fails.
\<close>

theorem pipeline_failure_handled_witness:
  "executeDeployment (example_io\<lparr>git_clone := Some (Error ''Command failed: git clone'')\<rparr>)
       example_world ''d1'' ''p1'' ''e1'' ''u1''
     = (example_world
          \<lparr>deployments :=
             [example_deployment\<lparr>status := FAILED,
                error_message := Some ''Failed to build Docker image: Error: Failed to clone repository: Error: Command failed: git clone'',
                duration_seconds := Some 42, updated_at := 200\<rparr>],
           deployment_logs :=
             [\<lparr>log_deployment_id = ''d1'', log_level = ''info'',
                 message = ''Starting deployment pipeline...''\<rparr>,
              \<lparr>log_deployment_id = ''d1'', log_level = ''info'',
                 message = ''Building Docker image...''\<rparr>,
              \<lparr>log_deployment_id = ''d1'', log_level = ''error'',
                 message = ''Deployment failed: Failed to build Docker image: Error: Failed to clone repository: Error: Command failed: git clone''\<rparr>]\<rparr>,
        None) \<and>
   (case executeDeployment (example_io\<lparr>docker_build := Some (Error ''exit 1'')\<rparr>)
           example_world ''d1'' ''p1'' ''e1'' ''u1'' of
      (w', outcome) \<Rightarrow>
        outcome = None \<and> docker_builds w' = 2 \<and>
        map (\<lambda>d. (status d, error_message d, duration_seconds d)) (deployments w')
          = [(FAILED,
              Some ''Failed to build Docker image: Error: Failed to build Docker image: Error: exit 1'',
              Some 42)] \<and>
        map log_level (deployment_logs w') = [''info'', ''info'', ''error'']) \<and>
   (case executeDeployment example_io port_taken_world ''d1'' ''p1'' ''e1'' ''u1'' of
      (w', outcome) \<Rightarrow>
        outcome = None \<and> docker_builds w' = 1 \<and>
        map (\<lambda>d. (status d, error_message d, duration_seconds d)) (deployments w')
          = [(FAILED,
              Some ''Failed to run Docker container: Error: (HTTP code 500) port is already allocated'',
              Some 42)] \<and>
        map log_level (deployment_logs w') = [''info'', ''info'', ''info'', ''info'', ''error''])"
proof -
  let ?clone = "example_io\<lparr>git_clone := Some (Error ''Command failed: git clone'')\<rparr>"
  let ?build = "example_io\<lparr>docker_build := Some (Error ''exit 1'')\<rparr>"
  let ?busy = "\<lparr>cid = ''c9'', cname = ''gilgal-p9-e9'', cimage = ''gilgal-p9-11111111'',
         cenv = [''NODE_ENV=production''], chost_port = 8005, ccontainer_port = 3000,
         running = True\<rparr>"
  let ?new = "\<lparr>cid = ''c1'', cname = ''gilgal-p1-e1'', cimage = ''gilgal-p1-ab12cd34'',
         cenv = [''APP_NAME=demo'', ''NODE_ENV=production''], chost_port = 8005,
         ccontainer_port = 3000, running = False\<rparr>"
  have c1: "completes ?clone [QSetBuilding, QLogStarting, QReadEnvironment, QReadProject, QLogBuilding]"
    and c2: "completes ?build [QSetBuilding, QLogStarting, QReadEnvironment, QReadProject, QLogBuilding]"
    and c3: "completes example_io [QSetBuilding, QLogStarting, QReadEnvironment, QReadProject,
                QLogBuilding, QLogBuilt, QLogStartingContainer]"
    by (simp_all add: completes_def example_io_def)
  have b1: "buildImage ?clone ''p1'' ''d1'' (repository_of example_world ''p1'')
      = (0, Inl (Error ''Failed to build Docker image: Error: Failed to clone repository: Error: Command failed: git clone''))"
    and b2: "buildImage ?build ''p1'' ''d1'' (repository_of example_world ''p1'')
      = (2, Inl (Error ''Failed to build Docker image: Error: Failed to build Docker image: Error: exit 1''))"
    and b3: "buildImage example_io ''p1'' ''d1'' (repository_of port_taken_world ''p1'')
      = (1, Inr (''gilgal-p1-ab12cd34'', ''gilgal-p1-ab12cd34'', ''express''))"
    by (simp_all add: buildImage_def Let_def example_io_def example_world_def
        port_taken_world_def repository_of_def)
  have r3: "runContainer (engine port_taken_world) (randomOffset example_io)
        (newContainerId example_io) ''gilgal-p1-ab12cd34'' ''p1'' ''e1''
        (variables_of port_taken_world ''e1'') ''express''
      = ([?busy, ?new],
         Inl (Error ''Failed to run Docker container: Error: (HTTP code 500) port is already allocated''))"
    by (simp add: runContainer_def allocatePort_def injected_env_def inspect_def resolve_def
        createContainer_def start_def refers_def port_taken_world_def example_world_def
        example_io_def variables_of_def)
  have f: "db_fault ?clone QSetFailed = None" "db_fault ?clone QLogFailed = None"
    "db_fault ?build QSetFailed = None" "db_fault ?build QLogFailed = None"
    "db_fault example_io QSetFailed = None" "db_fault example_io QLogFailed = None"
    by (simp_all add: example_io_def)
  have first: "executeDeployment ?clone example_world ''d1'' ''p1'' ''e1'' ''u1''
     = (example_world
          \<lparr>deployments :=
             [example_deployment\<lparr>status := FAILED,
                error_message := Some ''Failed to build Docker image: Error: Failed to clone repository: Error: Command failed: git clone'',
                duration_seconds := Some 42, updated_at := 200\<rparr>],
           deployment_logs :=
             [\<lparr>log_deployment_id = ''d1'', log_level = ''info'',
                 message = ''Starting deployment pipeline...''\<rparr>,
              \<lparr>log_deployment_id = ''d1'', log_level = ''info'',
                 message = ''Building Docker image...''\<rparr>,
              \<lparr>log_deployment_id = ''d1'', log_level = ''error'',
                 message = ''Deployment failed: Failed to build Docker image: Error: Failed to clone repository: Error: Command failed: git clone''\<rparr>]\<rparr>,
        None)"
    using pipeline_failure_handled
      [where io = ?clone and w = example_world and projectId = "''p1''"
         and deploymentId = "''d1''" and runs = 0 and environmentId = "''e1''"
         and userId = "''u1''"
         and error = "Error ''Failed to build Docker image: Error: Failed to clone repository: Error: Command failed: git clone''"]
      c1 b1 f(1,2)
    by (simp add: Let_def update_deployment_def addDeploymentLog_def example_world_def
        example_deployment_def example_io_def)
  have second: "executeDeployment ?build example_world ''d1'' ''p1'' ''e1'' ''u1''
     = (example_world
          \<lparr>deployments :=
             [example_deployment\<lparr>status := FAILED,
                error_message := Some ''Failed to build Docker image: Error: Failed to build Docker image: Error: exit 1'',
                duration_seconds := Some 42, updated_at := 200\<rparr>],
           deployment_logs :=
             [\<lparr>log_deployment_id = ''d1'', log_level = ''info'',
                 message = ''Starting deployment pipeline...''\<rparr>,
              \<lparr>log_deployment_id = ''d1'', log_level = ''info'',
                 message = ''Building Docker image...''\<rparr>,
              \<lparr>log_deployment_id = ''d1'', log_level = ''error'',
                 message = ''Deployment failed: Failed to build Docker image: Error: Failed to build Docker image: Error: exit 1''\<rparr>],
           docker_builds := 2\<rparr>,
        None)"
    using pipeline_failure_handled
      [where io = ?build and w = example_world and projectId = "''p1''"
         and deploymentId = "''d1''" and runs = 2 and environmentId = "''e1''"
         and userId = "''u1''"
         and error = "Error ''Failed to build Docker image: Error: Failed to build Docker image: Error: exit 1''"]
      c2 b2 f(3,4)
    by (simp add: Let_def update_deployment_def addDeploymentLog_def example_world_def
        example_deployment_def example_io_def)
  have third: "executeDeployment example_io port_taken_world ''d1'' ''p1'' ''e1'' ''u1''
     = (port_taken_world
          \<lparr>deployments :=
             [example_deployment\<lparr>status := FAILED,
                error_message := Some ''Failed to run Docker container: Error: (HTTP code 500) port is already allocated'',
                duration_seconds := Some 42, updated_at := 200\<rparr>],
           deployment_logs :=
             [\<lparr>log_deployment_id = ''d1'', log_level = ''info'',
                 message = ''Starting deployment pipeline...''\<rparr>,
              \<lparr>log_deployment_id = ''d1'', log_level = ''info'',
                 message = ''Building Docker image...''\<rparr>,
              \<lparr>log_deployment_id = ''d1'', log_level = ''info'',
                 message = ''Docker image built: gilgal-p1-ab12cd34''\<rparr>,
              \<lparr>log_deployment_id = ''d1'', log_level = ''info'',
                 message = ''Starting container...''\<rparr>,
              \<lparr>log_deployment_id = ''d1'', log_level = ''error'',
                 message = ''Deployment failed: Failed to run Docker container: Error: (HTTP code 500) port is already allocated''\<rparr>],
           engine := [?busy, ?new], docker_builds := 1\<rparr>,
        None)"
    using pipeline_failure_handled
      [where io = example_io and w = port_taken_world and projectId = "''p1''"
         and deploymentId = "''d1''" and runs = 1 and environmentId = "''e1''"
         and userId = "''u1''" and imageId = "''gilgal-p1-ab12cd34''"
         and imageName = "''gilgal-p1-ab12cd34''" and framework = "''express''"
         and d = "[?busy, ?new]"
         and error = "Error ''Failed to run Docker container: Error: (HTTP code 500) port is already allocated''"]
      c3 b3 r3 f(5,6)
    by (simp add: Let_def update_deployment_def addDeploymentLog_def port_taken_world_def
        example_world_def example_deployment_def example_io_def)
  show ?thesis
    unfolding first second third
    by (simp add: port_taken_world_def example_world_def example_deployment_def)
qed

text \<open>
  The claim as stated fails when the database refuses the update of the
  \<^verbatim>\<open>catch\<close> block: the clone fails, the update is refused, the activation
  rejects with the database's error, and the deployment stays \<open>building\<close> with no
  error message, no duration and no \<open>error\<close> log entry.
\<close>

theorem handler_update_refused:
  "executeDeployment
     (example_io\<lparr>git_clone := Some (Error ''Command failed: git clone''),
                 db_fault := (\<lambda>q. if q = QSetFailed
                                     then Some (Error ''Connection terminated unexpectedly'')
                                     else None)\<rparr>)
     example_world ''d1'' ''p1'' ''e1'' ''u1''
   = (example_world
        \<lparr>deployments := [example_deployment\<lparr>status := BUILDING\<rparr>],
         deployment_logs :=
           [\<lparr>log_deployment_id = ''d1'', log_level = ''info'',
               message = ''Starting deployment pipeline...''\<rparr>,
            \<lparr>log_deployment_id = ''d1'', log_level = ''info'',
               message = ''Building Docker image...''\<rparr>]\<rparr>,
      Some (Error ''Connection terminated unexpectedly''))"
  by (simp add: pipeline_defs buildImage_def Let_def example_io_def example_world_def
      example_deployment_def)


text \<open>
  The duration is negative when the clock is set back during the activation.
\<close>

lemma clock_step_back:
  "catch_duration (example_io\<lparr>catchTime := 400\<rparr>) = - 1 \<and>
   duration (example_io\<lparr>endTime := 400\<rparr>) = - 1"
  by (simp add: catch_duration_def duration_def example_io_def)

lemma run_unfold:
  "halted p = None \<Longrightarrow>
   run io i pid eid (p, w) = run io i pid eid (step io i pid eid (p, w))"
  by simp

lemma step_engine:
  "remaining p < 10 \<Longrightarrow> engine (snd (step io i pid eid (p, w))) = engine w"
  by (cases p) (auto simp: update_deployment_def addDeploymentLog_def split: option.splits)

lemma step_remaining:
  "remaining p < 10 \<Longrightarrow> remaining (fst (step io i pid eid (p, w))) < 10"
  by (cases p) (auto split: option.splits)

lemma run_engine:
  "remaining p < 10 \<Longrightarrow> engine (fst (run io i pid eid (p, w))) = engine w"
proof (induction io i pid eid "(p, w)" arbitrary: p w rule: run.induct)
  case (1 io i pid eid p w)
  show ?case
  proof (cases "halted p")
    case None
    obtain p' w' where s: "step io i pid eid (p, w) = (p', w')"
      by (cases "step io i pid eid (p, w)")
    from step_remaining [OF "1.prems", of io i pid eid w] s have r: "remaining p' < 10"
      by simp
    from step_engine [OF "1.prems", of io i pid eid w] s have e: "engine w' = engine w"
      by simp
    from "1.hyps" [OF None s r] e None s show ?thesis
      by (simp del: step.simps)
  next
    case (Some outcome)
    then show ?thesis by simp
  qed
qed

lemma reaches_running:
  assumes "completes io [QSetBuilding, QLogStarting, QReadEnvironment, QReadProject, QLogBuilding,
                         QLogBuilt, QLogStartingContainer]"
    and "buildImage io pid i (repository_of w pid) = (runs, Inr (imageId, imageName, framework))"
    and "runContainer (engine w) (randomOffset io) (newContainerId io) imageName pid eid
           (variables_of w eid) framework = (d, Inr (containerId, port))"
  shows "\<exists>w1. engine w1 = d \<and>
           executeDeployment io w i pid eid uid = run io i pid eid (LogRunning containerId port, w1)"
proof -
  let ?w1 = "(addDeploymentLog
           (addDeploymentLog
              ((addDeploymentLog
                 (addDeploymentLog (update_deployment i (\<lambda>d. d\<lparr>status := BUILDING\<rparr>) w)
                    i ''info'' ''Starting deployment pipeline...'')
                 i ''info'' ''Building Docker image...'')
               \<lparr>docker_builds := docker_builds w + runs\<rparr>)
              i ''info'' (''Docker image built: '' @ imageName))
           i ''info'' ''Starting container...'')
        \<lparr>engine := d\<rparr>"
  have "executeDeployment io w i pid eid uid = run io i pid eid (LogRunning containerId port, ?w1)"
    unfolding executeDeployment_def
    using assms [unfolded completes_def]
    apply (subst run_unfold)
     apply simp
    apply (simp del: run.simps add: addDeploymentLog_def update_deployment_def repository_of_def variables_of_def)
    apply (subst run_unfold)
     apply simp
    apply (simp del: run.simps add: addDeploymentLog_def update_deployment_def repository_of_def variables_of_def)
    apply (subst run_unfold)
     apply simp
    apply (simp del: run.simps add: addDeploymentLog_def update_deployment_def repository_of_def variables_of_def)
    apply (subst run_unfold)
     apply simp
    apply (simp del: run.simps add: addDeploymentLog_def update_deployment_def repository_of_def variables_of_def)
    apply (subst run_unfold)
     apply simp
    apply (simp del: run.simps add: addDeploymentLog_def update_deployment_def repository_of_def variables_of_def)
    apply (subst run_unfold)
     apply simp
    apply (simp del: run.simps add: addDeploymentLog_def update_deployment_def repository_of_def variables_of_def)
    apply (subst run_unfold)
     apply simp
    apply (simp del: run.simps add: addDeploymentLog_def update_deployment_def repository_of_def variables_of_def)
    apply (subst run_unfold)
     apply simp
    apply (simp del: run.simps add: addDeploymentLog_def update_deployment_def repository_of_def variables_of_def)
    apply (subst run_unfold)
     apply simp
    apply (simp del: run.simps add: addDeploymentLog_def update_deployment_def repository_of_def variables_of_def)
    done
  moreover have "engine ?w1 = d"
    by (simp add: addDeploymentLog_def update_deployment_def)
  ultimately show ?thesis by blast
qed


text \<open>
  C8 as the code has it, from the environment's row to the started container. When the
  queries up to the run step complete, the build succeeds and \<^verbatim>\<open>runContainer\<close>
  succeeds, the engine holds, at the end of the activation, the started container with
  exactly one entry \<^verbatim>\<open>`${key}=${value}`\<close> per pair of the variables read for the
  deployment's environment, in the order of \<^verbatim>\<open>Object.entries\<close>, followed by
  \<^verbatim>\<open>NODE_ENV=production\<close>. If moreover no name contains \<^verbatim>\<open>=\<close> (the
  names being distinct keys), the entries read back as the pairs of names and printed
  values followed by the marker: every variable other than \<^verbatim>\<open>NODE_ENV\<close> has
  the printed form of its value in the container, which for a string is the string
  itself, and \<^verbatim>\<open>NODE_ENV\<close> is \<^verbatim>\<open>production\<close>.
\<close>

theorem executeDeployment_env_roundtrip:
  assumes queries: "completes io [QSetBuilding, QLogStarting, QReadEnvironment, QReadProject,
                                  QLogBuilding, QLogBuilt, QLogStartingContainer]"
    and build: "buildImage io projectId deploymentId (repository_of w projectId)
                  = (runs, Inr (imageId, imageName, framework))"
    and run: "runContainer (engine w) (randomOffset io) (newContainerId io) imageName projectId
                environmentId (variables_of w environmentId) framework
                  = (d, Inr (containerId, port))"
  shows "\<exists>ct. ct \<in> set (engine (fst (executeDeployment io w deploymentId projectId
                                         environmentId userId))) \<and>
           cid ct = containerId \<and> running ct \<and>
           cenv ct = map (\<lambda>(key, value). key @ ''='' @ to_js_string value)
                       (variables_of w environmentId) @ [''NODE_ENV=production''] \<and>
           ((\<forall>(k, v) \<in> set (variables_of w environmentId). CHR ''='' \<notin> set k) \<and>
            distinct (map fst (variables_of w environmentId)) \<longrightarrow>
              map split_entry (cenv ct)
                = map (\<lambda>(k, v). (k, to_js_string v)) (variables_of w environmentId)
                    @ [(''NODE_ENV'', ''production'')] \<and>
              (\<forall>(k, v) \<in> set (variables_of w environmentId).
                  k \<noteq> ''NODE_ENV'' \<longrightarrow> container_getenv (cenv ct) k = Some (to_js_string v)) \<and>
              (\<forall>k s. (k, JsonString s) \<in> set (variables_of w environmentId) \<and> k \<noteq> ''NODE_ENV''
                  \<longrightarrow> container_getenv (cenv ct) k = Some s) \<and>
              container_getenv (cenv ct) ''NODE_ENV'' = Some ''production'')"
proof -
  let ?vars = "variables_of w environmentId"
  from reaches_running [OF queries build run, where uid = userId]
  obtain w1 where w1: "engine w1 = d"
    and ex: "executeDeployment io w deploymentId projectId environmentId userId
               = run io deploymentId projectId environmentId (LogRunning containerId port, w1)"
    by blast
  have "engine (fst (run io deploymentId projectId environmentId
                       (LogRunning containerId port, w1))) = engine w1"
    by (rule run_engine) simp
  with w1 ex have eng: "engine (fst (executeDeployment io w deploymentId projectId
                                       environmentId userId)) = d"
    by simp
  from runContainer_created [OF run] obtain ct where
    ct: "ct \<in> set d" "cid ct = containerId" "running ct" "cenv ct = injected_env ?vars"
    by auto
  have read: "map split_entry (injected_env ?vars)
                = map (\<lambda>(k, v). (k, to_js_string v)) ?vars @ [(''NODE_ENV'', ''production'')] \<and>
              (\<forall>(k, v) \<in> set ?vars.
                  k \<noteq> ''NODE_ENV'' \<longrightarrow> container_getenv (injected_env ?vars) k = Some (to_js_string v)) \<and>
              (\<forall>k s. (k, JsonString s) \<in> set ?vars \<and> k \<noteq> ''NODE_ENV''
                  \<longrightarrow> container_getenv (injected_env ?vars) k = Some s) \<and>
              container_getenv (injected_env ?vars) ''NODE_ENV'' = Some ''production''"
    if names: "\<forall>(k, v) \<in> set ?vars. CHR ''='' \<notin> set k" and dist: "distinct (map fst ?vars)"
  proof -
    note g = getenv_injected_env [OF names dist]
    have "\<forall>(k, v) \<in> set ?vars.
            k \<noteq> ''NODE_ENV'' \<longrightarrow> container_getenv (injected_env ?vars) k = Some (to_js_string v)"
      using g(2) by blast
    moreover have "\<forall>k s. (k, JsonString s) \<in> set ?vars \<and> k \<noteq> ''NODE_ENV''
            \<longrightarrow> container_getenv (injected_env ?vars) k = Some s"
      using g(2) by fastforce
    ultimately show ?thesis
      using map_split_injected_env [OF names] g(1) by blast
  qed
  show ?thesis
    unfolding eng
    using ct read by (intro exI [of _ ct]) (simp add: injected_env_def)
qed

text \<open>
  At the example state with variables of three JSON types: the container gets
  \<^verbatim>\<open>APP_NAME=demo\<close>, \<^verbatim>\<open>REPLICAS=2\<close>, \<^verbatim>\<open>DEBUG=false\<close> and the
  marker.
\<close>

theorem executeDeployment_env_roundtrip_witness:
  "completes example_io [QSetBuilding, QLogStarting, QReadEnvironment, QReadProject,
                         QLogBuilding, QLogBuilt, QLogStartingContainer] \<and>
   variables_of typed_env_world ''e1''
     = [(''APP_NAME'', JsonString ''demo''), (''REPLICAS'', JsonNumber ''2''),
        (''DEBUG'', JsonBool False)] \<and>
   (\<exists>ct. ct \<in> set (engine (fst (executeDeployment example_io typed_env_world
                                     ''d1'' ''p1'' ''e1'' ''u1''))) \<and>
         cid ct = ''c1'' \<and> running ct \<and>
         cenv ct = [''APP_NAME=demo'', ''REPLICAS=2'', ''DEBUG=false'', ''NODE_ENV=production''] \<and>
         container_getenv (cenv ct) ''APP_NAME'' = Some ''demo'' \<and>
         container_getenv (cenv ct) ''REPLICAS'' = Some ''2'' \<and>
         container_getenv (cenv ct) ''DEBUG'' = Some ''false'' \<and>
         container_getenv (cenv ct) ''NODE_ENV'' = Some ''production'')"
proof -
  let ?vars = "[(''APP_NAME'', JsonString ''demo''), (''REPLICAS'', JsonNumber ''2''),
                (''DEBUG'', JsonBool False)]"
  let ?env = "[''APP_NAME=demo'', ''REPLICAS=2'', ''DEBUG=false'', ''NODE_ENV=production'']"
  let ?new = "\<lparr>cid = ''c1'', cname = ''gilgal-p1-e1'', cimage = ''gilgal-p1-ab12cd34'',
               cenv = ?env, chost_port = 8005, ccontainer_port = 3000, running = True\<rparr>"
  have c: "completes example_io [QSetBuilding, QLogStarting, QReadEnvironment, QReadProject,
                                 QLogBuilding, QLogBuilt, QLogStartingContainer]"
    by (simp add: completes_def example_io_def)
  have v: "variables_of typed_env_world ''e1'' = ?vars"
    by (simp add: variables_of_def typed_env_world_def example_world_def)
  have b: "buildImage example_io ''p1'' ''d1'' (repository_of typed_env_world ''p1'')
             = (1, Inr (''gilgal-p1-ab12cd34'', ''gilgal-p1-ab12cd34'', ''express''))"
    by (simp add: buildImage_def Let_def example_io_def typed_env_world_def example_world_def
        repository_of_def)
  have r: "runContainer (engine typed_env_world) (randomOffset example_io)
             (newContainerId example_io) ''gilgal-p1-ab12cd34'' ''p1'' ''e1''
             (variables_of typed_env_world ''e1'') ''express''
           = ([?new], Inr (''c1'', 8005))"
    unfolding v
    by (simp add: runContainer_def allocatePort_def injected_env_def inspect_def resolve_def
        createContainer_def start_def refers_def typed_env_world_def example_world_def
        example_io_def)
  have names: "\<forall>(k, v) \<in> set (variables_of typed_env_world ''e1''). CHR ''='' \<notin> set k"
    and dist: "distinct (map fst (variables_of typed_env_world ''e1''))"
    unfolding v by simp_all
  from executeDeployment_env_roundtrip [OF c b r, where userId = "''u1''"] names dist
  obtain ct where ct:
    "ct \<in> set (engine (fst (executeDeployment example_io typed_env_world
                              ''d1'' ''p1'' ''e1'' ''u1'')))"
    "cid ct = ''c1''" "running ct"
    "cenv ct = map (\<lambda>(key, value). key @ ''='' @ to_js_string value)
                 (variables_of typed_env_world ''e1'') @ [''NODE_ENV=production'']"
    "\<forall>(k, v) \<in> set (variables_of typed_env_world ''e1'').
        k \<noteq> ''NODE_ENV'' \<longrightarrow> container_getenv (cenv ct) k = Some (to_js_string v)"
    "container_getenv (cenv ct) ''NODE_ENV'' = Some ''production''"
    by blast
  from ct(4) have env: "cenv ct = ?env"
    unfolding v by simp
  from ct(5) have "container_getenv (cenv ct) ''APP_NAME'' = Some ''demo''"
    and "container_getenv (cenv ct) ''REPLICAS'' = Some ''2''"
    and "container_getenv (cenv ct) ''DEBUG'' = Some ''false''"
    unfolding v by simp_all
  with c v ct(1,2,3,6) env show ?thesis
    by blast
qed

text \<open>
  The claim as stated fails at the example state with a supplied \<^verbatim>\<open>NODE_ENV\<close>, a
  name that contains \<^verbatim>\<open>=\<close> and a \<^verbatim>\<open>null\<close> value. The deployment
  succeeds; in its container \<^verbatim>\<open>NODE_ENV\<close> is \<^verbatim>\<open>production\<close>, not the
  supplied \<^verbatim>\<open>development\<close> (the marker is pushed after the supplied entries);
  the variable \<^verbatim>\<open>A=B\<close> does not exist and a variable \<^verbatim>\<open>A\<close> does; and
  \<^verbatim>\<open>DEBUG\<close> is the four-character string \<^verbatim>\<open>null\<close>.
\<close>

theorem env_roundtrip_counterexample:
  "variables_of node_env_world ''e1''
     = [(''NODE_ENV'', JsonString ''development''), (''A=B'', JsonString ''c''),
        (''DEBUG'', JsonNull)] \<and>
   (case executeDeployment example_io node_env_world ''d1'' ''p1'' ''e1'' ''u1'' of
      (w', outcome) \<Rightarrow>
        outcome = None \<and>
        map status (deployments w') = [SUCCESS] \<and>
        engine w' =
          [\<lparr>cid = ''c1'', cname = ''gilgal-p1-e1'', cimage = ''gilgal-p1-ab12cd34'',
            cenv = [''NODE_ENV=development'', ''A=B=c'', ''DEBUG=null'', ''NODE_ENV=production''],
            chost_port = 8005, ccontainer_port = 3000, running = True\<rparr>]) \<and>
   container_getenv [''NODE_ENV=development'', ''A=B=c'', ''DEBUG=null'', ''NODE_ENV=production'']
       ''NODE_ENV'' = Some ''production'' \<and>
   container_getenv [''NODE_ENV=development'', ''A=B=c'', ''DEBUG=null'', ''NODE_ENV=production'']
       ''A=B'' = None \<and>
   container_getenv [''NODE_ENV=development'', ''A=B=c'', ''DEBUG=null'', ''NODE_ENV=production'']
       ''A'' = Some ''B=c'' \<and>
   container_getenv [''NODE_ENV=development'', ''A=B=c'', ''DEBUG=null'', ''NODE_ENV=production'']
       ''DEBUG'' = Some ''null''"
proof -
  have v: "variables_of node_env_world ''e1''
     = [(''NODE_ENV'', JsonString ''development''), (''A=B'', JsonString ''c''),
        (''DEBUG'', JsonNull)]"
    by (simp add: variables_of_def node_env_world_def example_world_def)
  have f: "db_fault example_io = (\<lambda>q. None)"
    by (simp add: example_io_def)
  have b: "buildImage example_io ''p1'' ''d1'' (repository_of node_env_world ''p1'')
             = (1, Inr (''gilgal-p1-ab12cd34'', ''gilgal-p1-ab12cd34'', ''express''))"
    by (simp add: buildImage_def Let_def example_io_def node_env_world_def example_world_def
        repository_of_def)
  have r: "runContainer (engine node_env_world) (randomOffset example_io)
             (newContainerId example_io) ''gilgal-p1-ab12cd34'' ''p1'' ''e1''
             (variables_of node_env_world ''e1'') ''express''
           = ([\<lparr>cid = ''c1'', cname = ''gilgal-p1-e1'', cimage = ''gilgal-p1-ab12cd34'',
                cenv = [''NODE_ENV=development'', ''A=B=c'', ''DEBUG=null'',
                        ''NODE_ENV=production''],
                chost_port = 8005, ccontainer_port = 3000, running = True\<rparr>],
              Inr (''c1'', 8005))"
    unfolding v
    by (simp add: runContainer_def allocatePort_def injected_env_def inspect_def resolve_def
        createContainer_def start_def refers_def node_env_world_def example_world_def
        example_io_def)
  have g: "container_getenv [''NODE_ENV=development'', ''A=B=c'', ''DEBUG=null'',
                             ''NODE_ENV=production''] ''NODE_ENV'' = Some ''production''"
    "container_getenv [''NODE_ENV=development'', ''A=B=c'', ''DEBUG=null'',
                       ''NODE_ENV=production''] ''A=B'' = None"
    "container_getenv [''NODE_ENV=development'', ''A=B=c'', ''DEBUG=null'',
                       ''NODE_ENV=production''] ''A'' = Some ''B=c''"
    "container_getenv [''NODE_ENV=development'', ''A=B=c'', ''DEBUG=null'',
                       ''NODE_ENV=production''] ''DEBUG'' = Some ''null''"
    by (simp_all add: container_getenv_def)
  show ?thesis
    unfolding run_succeeds [OF f b r, of "''u1''"]
    using v g by (simp add: node_env_world_def example_world_def example_deployment_def)
qed

text \<open>
  C7 at the example state, with the build and the run succeeding and the proxy
  reconfiguration throwing. The activation ends normally and the deployments table is
  the one an activation with a successful reconfiguration leaves: the status stays
  \<open>success\<close>. But the entry that records the failure is written with the level
  \<open>warn\<close>, which is not one of the levels \<^verbatim>\<open>DeploymentLog.logLevel\<close> declares
  (\<open>warning\<close> is): the deployment's entries of level \<open>warning\<close> are none.
\<close>

theorem nginx_failure_logged_as_warn:
  "(case executeDeployment (example_io\<lparr>nginx := Some (Error ''nginx: configuration test failed'')\<rparr>)
          example_world ''d1'' ''p1'' ''e1'' ''u1'' of
      (w', outcome) \<Rightarrow>
        outcome = None \<and>
        deployments w'
          = deployments (fst (executeDeployment example_io example_world ''d1'' ''p1'' ''e1'' ''u1'')) \<and>
        map (\<lambda>d. (status d, container_id d, container_port d, error_message d)) (deployments w')
          = [(SUCCESS, Some ''c1'', Some 8005, None)] \<and>
        map log_level (deployment_logs w')
          = [''info'', ''info'', ''info'', ''info'', ''info'', ''info'', ''info'', ''warn''] \<and>
        logs_of_level w' ''d1'' ''warn''
          = [\<lparr>log_deployment_id = ''d1'', log_level = ''warn'',
               message = ''Deployment successful but nginx config update failed (may require manual setup)''\<rparr>] \<and>
        logs_of_level w' ''d1'' ''warning'' = []) \<and>
   ''warn'' \<notin> set log_levels \<and> ''warning'' \<in> set log_levels"
proof -
  let ?io = "example_io\<lparr>nginx := Some (Error ''nginx: configuration test failed'')\<rparr>"
  have f: "db_fault ?io = (\<lambda>q. None)" "db_fault example_io = (\<lambda>q. None)"
    by (simp_all add: example_io_def)
  have b: "buildImage ?io ''p1'' ''d1'' (repository_of example_world ''p1'')
             = (1, Inr (''gilgal-p1-ab12cd34'', ''gilgal-p1-ab12cd34'', ''express''))"
    "buildImage example_io ''p1'' ''d1'' (repository_of example_world ''p1'')
             = (1, Inr (''gilgal-p1-ab12cd34'', ''gilgal-p1-ab12cd34'', ''express''))"
    by (simp_all add: buildImage_def Let_def example_io_def example_world_def repository_of_def)
  have r: "runContainer (engine example_world) (randomOffset ?io) (newContainerId ?io)
             ''gilgal-p1-ab12cd34'' ''p1'' ''e1'' (variables_of example_world ''e1'') ''express''
           = ([\<lparr>cid = ''c1'', cname = ''gilgal-p1-e1'', cimage = ''gilgal-p1-ab12cd34'',
                cenv = [''APP_NAME=demo'', ''NODE_ENV=production''],
                chost_port = 8005, ccontainer_port = 3000, running = True\<rparr>],
              Inr (''c1'', 8005))"
    "runContainer (engine example_world) (randomOffset example_io) (newContainerId example_io)
             ''gilgal-p1-ab12cd34'' ''p1'' ''e1'' (variables_of example_world ''e1'') ''express''
           = ([\<lparr>cid = ''c1'', cname = ''gilgal-p1-e1'', cimage = ''gilgal-p1-ab12cd34'',
                cenv = [''APP_NAME=demo'', ''NODE_ENV=production''],
                chost_port = 8005, ccontainer_port = 3000, running = True\<rparr>],
              Inr (''c1'', 8005))"
    by (simp_all add: runContainer_def allocatePort_def injected_env_def inspect_def resolve_def
        createContainer_def start_def refers_def example_world_def example_io_def
        variables_of_def)
  show ?thesis
    unfolding run_succeeds [OF f(1) b(1) r(1), of "''u1''"]
      run_succeeds [OF f(2) b(2) r(2), of "''u1''"]
    by (simp add: example_world_def example_deployment_def example_io_def duration_def
        logs_of_level_def log_levels_def)
qed

text \<open>
  If the database refuses the insert of that entry, the throw lands in the outer
  \<^verbatim>\<open>catch\<close>, which sets the successful deployment \<open>failed\<close>.
\<close>

lemma refused_warn_entry_fails_deployment:
  "(case executeDeployment
          (example_io\<lparr>nginx := Some (Error ''nginx: configuration test failed''),
                      db_fault := (\<lambda>q. if q = QLogNginxFailed
                                          then Some (Error ''Connection terminated unexpectedly'')
                                          else None)\<rparr>)
          example_world ''d1'' ''p1'' ''e1'' ''u1'' of
      (w', outcome) \<Rightarrow>
        outcome = None \<and>
        map (\<lambda>d. (status d, container_id d, error_message d)) (deployments w')
          = [(FAILED, Some ''c1'', Some ''Connection terminated unexpectedly'')] \<and>
        map (\<lambda>c. (cid c, running c)) (engine w') = [(''c1'', True)])"
  by (simp add: pipeline_defs buildImage_def Let_def example_io_def example_world_def
      example_deployment_def runContainer_def allocatePort_def injected_env_def inspect_def
      resolve_def createContainer_def start_def refers_def)

section \<open>Cancellation and rollback\<close>

lemmas example_defs =
  example_world_def example_deployment_def example_io_def previous_deployment_def
  example_container_def history_world_def building_world_def port_taken_world_def

lemmas service_defs =
  cancelDeployment_def rollbackDeployment_def getDeployment_def deployment_row_def
  js_get_def previous_query_def update_deployment_def addDeploymentLog_def
  opt_str_def opt_num_def opt_int_def

text \<open>
  The row object the driver returns has the column names as its keys, so the four
  camel-case properties the service reads from it are undefined. Hence a rollback is
  rejected in every state, and a cancel that succeeds leaves the engine and every
  recorded duration as they were.
\<close>

lemma deployment_row_camelCase:
  "js_get (deployment_row d) ''projectId'' = None"
  "js_get (deployment_row d) ''environmentId'' = None"
  "js_get (deployment_row d) ''createdAt'' = None"
  "js_get (deployment_row d) ''containerId'' = None"
  by (simp_all add: js_get_def deployment_row_def)

lemma getDeployment_row:
  "getDeployment w i u = Inr r \<Longrightarrow> \<exists>d. r = deployment_row d"
  by (auto simp: getDeployment_def split: list.splits)

lemma rollbackDeployment_rejects:
  "\<exists>e. rollbackDeployment w i u = Inl e"
proof (cases "getDeployment w i u")
  case (Inl e)
  then show ?thesis by (simp add: rollbackDeployment_def)
next
  case (Inr r)
  then obtain d where "r = deployment_row d"
    using getDeployment_row by blast
  with Inr show ?thesis
    by (simp add: rollbackDeployment_def previous_query_def deployment_row_camelCase)
qed

lemma cancelDeployment_frame:
  assumes "cancelDeployment w i u = Inr w'"
  shows "engine w' = engine w"
    and "map duration_seconds (deployments w') = map duration_seconds (deployments w)"
proof -
  from assms obtain r where r: "getDeployment w i u = Inr r"
    by (cases "getDeployment w i u") (auto simp: cancelDeployment_def)
  then obtain d where d: "r = deployment_row d"
    using getDeployment_row by blast
  from assms r d have w': "w' = addDeploymentLog
      (update_deployment i (\<lambda>d. d\<lparr>status := ''cancelled'', updated_at := now w\<rparr>) w)
      i ''info'' ''Deployment cancelled by user''"
    by (auto simp: cancelDeployment_def deployment_row_camelCase Let_def split: if_splits)
  show "engine w' = engine w"
    by (simp add: w' addDeploymentLog_def update_deployment_def)
  show "map duration_seconds (deployments w') = map duration_seconds (deployments w)"
    by (simp add: w' addDeploymentLog_def update_deployment_def comp_def)
qed

lemma cancelDeployment_outcome:
  "cancelDeployment w i u =
     (case getDeployment w i u of
        Inl e \<Rightarrow> Inl e
      | Inr r \<Rightarrow>
          if js_get r ''status'' = Some (JStr PENDING) \<or> js_get r ''status'' = Some (JStr BUILDING)
          then Inr (addDeploymentLog
                      (update_deployment i
                         (\<lambda>d. d\<lparr>status := ''cancelled'', updated_at := now w\<rparr>) w)
                      i ''info'' ''Deployment cancelled by user'')
          else Inl (ApiError 400 ''VALIDATION_ERROR'' ''Cannot cancel completed deployment''))"
proof (cases "getDeployment w i u")
  case (Inl e)
  then show ?thesis by (simp add: cancelDeployment_def)
next
  case (Inr r)
  then obtain d where "r = deployment_row d"
    using getDeployment_row by blast
  with Inr show ?thesis
    by (simp add: cancelDeployment_def deployment_row_camelCase Let_def)
qed

text \<open>
  C10 at the example state: cancelling the pending deployment makes it \<open>cancelled\<close>,
  a terminal status, and leaves its \<^verbatim>\<open>duration_seconds\<close> unset; the update
  writes the status and \<^verbatim>\<open>updated_at\<close> only, where the success and the failure
  updates of the pipeline both write the duration.
\<close>

theorem cancel_leaves_duration_unset:
  "cancelDeployment example_world ''d1'' ''u1'' =
     Inr (example_world
            \<lparr>deployments := [example_deployment\<lparr>status := ''cancelled'', updated_at := 200\<rparr>],
             deployment_logs := [\<lparr>log_deployment_id = ''d1'', log_level = ''info'',
                                  message = ''Deployment cancelled by user''\<rparr>]\<rparr>) \<and>
   duration_seconds (example_deployment\<lparr>status := ''cancelled'', updated_at := 200\<rparr>) = None"
  by (simp add: example_defs service_defs)

text \<open>
  C2 at the example state, along one schedule of the event loop: the pipeline's first
  step makes the deployment \<open>building\<close>; a cancel request served while the pipeline
  awaits makes it \<open>cancelled\<close>; the pipeline then runs on. If its build and run succeed
  it overwrites the cancelled deployment with \<open>success\<close> (and a container, a port and a
  duration); if the build throws, its failure handler overwrites it with \<open>failed\<close>.
\<close>

theorem cancelled_deployment_overwritten:
  "(case step example_io ''d1'' ''p1'' ''e1'' (SetBuilding, example_world) of
      (p, w1) \<Rightarrow>
        map status (deployments w1) = [BUILDING] \<and>
        (case cancelDeployment w1 ''d1'' ''u1'' of
           Inl e \<Rightarrow> False
         | Inr w2 \<Rightarrow>
             map status (deployments w2) = [''cancelled''] \<and>
             map (\<lambda>d. (status d, container_id d, duration_seconds d))
               (deployments (fst (run example_io ''d1'' ''p1'' ''e1'' (p, w2))))
               = [(SUCCESS, Some ''c1'', Some 42)] \<and>
             map (\<lambda>d. (status d, error_message d, duration_seconds d))
               (deployments (fst (run (example_io\<lparr>docker_build := Some (Error ''exit 1'')\<rparr>)
                                    ''d1'' ''p1'' ''e1'' (p, w2))))
               = [(FAILED,
                   Some ''Failed to build Docker image: Error: Failed to build Docker image: Error: exit 1'',
                   Some 42)]))"
  by (simp add: example_defs service_defs variables_of_def repository_of_def buildImage_def
      runContainer_def allocatePort_def injected_env_def inspect_def resolve_def
      createContainer_def start_def refers_def duration_def catch_duration_def Let_def)

lemma nine_steps:
  "(f ^^ 9) x = f (f (f (f (f (f (f (f (f x))))))))"
  by (simp add: eval_nat_numeral)

text \<open>
  C6 on the code. First, along one schedule at the example state: the pipeline has built
  the image and started container \<open>c1\<close>, and awaits its next log write, when the cancel
  request is served. The deployment is \<open>building\<close> and its row names no container yet
  (the success update writes it), so the cancel makes it \<open>cancelled\<close> and writes its log
  entry while \<open>c1\<close> keeps running. Second, even for a row in status \<open>building\<close> that
  does name a running container: the row object has the key \<^verbatim>\<open>container_id\<close> and
  no key \<^verbatim>\<open>containerId\<close>, so the test \<^verbatim>\<open>if (deployment.containerId)\<close>
  fails and the container, which \<^verbatim>\<open>stopContainer\<close> would stop and remove, is left
  running. Third, a cancel of a deployment already in status \<open>success\<close> is rejected
  with the validation error.
\<close>

theorem cancel_does_not_stop_container:
  "(case (step example_io ''d1'' ''p1'' ''e1'' ^^ 9) (SetBuilding, example_world) of
      (p, w1) \<Rightarrow>
        p = LogRunning ''c1'' 8005 \<and>
        map (\<lambda>d. (status d, container_id d)) (deployments w1) = [(BUILDING, None)] \<and>
        map (\<lambda>c. (cid c, running c)) (engine w1) = [(''c1'', True)] \<and>
        (case cancelDeployment w1 ''d1'' ''u1'' of
           Inl e \<Rightarrow> False
         | Inr w2 \<Rightarrow>
             map status (deployments w2) = [''cancelled''] \<and>
             map (\<lambda>c. (cid c, running c)) (engine w2) = [(''c1'', True)])) \<and>
   getDeployment building_world ''d1'' ''u1''
     = Inr (deployment_row (example_deployment\<lparr>status := BUILDING, container_id := Some ''c0''\<rparr>)) \<and>
   js_get (deployment_row (example_deployment\<lparr>status := BUILDING, container_id := Some ''c0''\<rparr>))
       ''container_id'' = Some (JStr ''c0'') \<and>
   js_get (deployment_row (example_deployment\<lparr>status := BUILDING, container_id := Some ''c0''\<rparr>))
       ''containerId'' = None \<and>
   cancelDeployment building_world ''d1'' ''u1'' =
     Inr (building_world
            \<lparr>deployments := [example_deployment\<lparr>status := ''cancelled'',
                               container_id := Some ''c0'', updated_at := 200\<rparr>],
             deployment_logs := [\<lparr>log_deployment_id = ''d1'', log_level = ''info'',
                                  message = ''Deployment cancelled by user''\<rparr>]\<rparr>) \<and>
   engine building_world = [example_container] \<and> running example_container \<and>
   stopContainer [example_container] ''c0'' = Inr [] \<and>
   cancelDeployment history_world ''d0'' ''u1''
     = Inl (ApiError 400 ''VALIDATION_ERROR'' ''Cannot cancel completed deployment'')"
  by (simp add: example_defs service_defs stopContainer_def inspect_def stop_def remove_def
      resolve_def refers_def nine_steps variables_of_def repository_of_def buildImage_def
      runContainer_def allocatePort_def injected_env_def createContainer_def start_def Let_def)

text \<open>
  C5 at a state with an earlier successful deployment of the same project and
  environment. The query's parameters are read from
  \<^verbatim>\<open>currentDeployment.projectId\<close>, \<^verbatim>\<open>.environmentId\<close> and
  \<^verbatim>\<open>.createdAt\<close>, keys the row object does not have; they reach the database as
  \<^verbatim>\<open>NULL\<close>, the query selects nothing, and the rollback is rejected although the
  same query with the row's \<^verbatim>\<open>project_id\<close>, \<^verbatim>\<open>environment_id\<close> and
  \<^verbatim>\<open>created_at\<close> finds \<open>d0\<close>.
\<close>

theorem rollback_never_finds_previous:
  "getDeployment history_world ''d1'' ''u1'' = Inr (deployment_row example_deployment) \<and>
   js_get (deployment_row example_deployment) ''projectId'' = None \<and>
   js_get (deployment_row example_deployment) ''environmentId'' = None \<and>
   js_get (deployment_row example_deployment) ''createdAt'' = None \<and>
   previous_query history_world
       (js_get (deployment_row example_deployment) ''project_id'')
       (js_get (deployment_row example_deployment) ''environment_id'')
       (Some (JStr SUCCESS))
       (js_get (deployment_row example_deployment) ''created_at'') = [previous_deployment] \<and>
   rollbackDeployment history_world ''d1'' ''u1''
     = Inl (ApiError 400 ''VALIDATION_ERROR'' ''No previous successful deployment found'')"
  by (simp add: example_defs service_defs)

section \<open>Properties of the webhook path\<close>

lemmas webhook_defs =
  github_webhook_def verifySignature_def handlePushWebhook_def insert_deployment_def
  truthy_string_def js_or_def last_segment_def stand_in_hmac_def example_push_def

lemma handlePushWebhook_tasks:
  "handlePushWebhook w i payload pid = (w', r, tasks) \<Longrightarrow>
   tasks = [] \<or> tasks = [WebhookReadyCheck i]"
  by (auto simp: handlePushWebhook_def Let_def split: list.splits option.splits sum.splits if_splits)

text \<open>
  Without a raw body the route never gets past the signature check: updating the hash
  throws, and the \<^verbatim>\<open>catch\<close> around \<^verbatim>\<open>verifySignature\<close> answers 401.
\<close>

lemma github_webhook_no_raw_body:
  "github_webhook hmac_hex w deploymentId projectId signature None eventType body =
     (case truthy_string signature of
        None \<Rightarrow>
          (w, SendError 401 ''MISSING_SIGNATURE'' ''Missing X-Hub-Signature-256 header'', [])
      | Some sig \<Rightarrow>
          (case filter (\<lambda>p. p_id p = projectId \<and> p_deleted_at p = None) (projects w) of
             [] \<Rightarrow> (w, SendError 404 ''PROJECT_NOT_FOUND'' ''Project not found'', [])
           | p # _ \<Rightarrow>
               (case truthy_string (webhook_secret p) of
                  None \<Rightarrow>
                    (w, SendError 400 ''WEBHOOK_NOT_CONFIGURED''
                          ''Webhook is not configured for this project. Generate a secret first.'',
                     [])
                | Some webhookSecret \<Rightarrow>
                    (w, SendError 401 ''INVALID_SIGNATURE'' ''Invalid webhook signature'', []))))"
  by (simp add: github_webhook_def verifySignature_def split: option.splits list.splits)

lemma errorHandler_sends_error:
  "\<exists>status code m. errorHandler e = SendError status code m"
  by (cases e) simp_all

lemma content_type_check_sends_error:
  "content_type_check req keys = Some response \<Longrightarrow> \<exists>status code m. response = SendError status code m"
  by (auto simp: content_type_check_def split: if_splits)

text \<open>
  C1 on the application. \<^verbatim>\<open>createApp\<close> parses every body before the webhook
  router is reached, so the router's middleware never sees a buffer and never keeps the
  raw body. Hence every request to the webhook route is answered with an error, changes
  nothing and leaves nothing on the event loop: no request is accepted, whatever its
  signature header. And a request that carries a signature header, for a project that
  exists and has a secret, is answered 401 \<^verbatim>\<open>INVALID_SIGNATURE\<close> once it has
  passed the body parsers and the content-type check. As for
  \<^verbatim>\<open>verifySignature\<close> itself, it returns \<^verbatim>\<open>true\<close> only for a
  payload that is present and a signature that is \<^verbatim>\<open>sha256=\<close> followed by the
  keyed hash of that payload under the given secret.
\<close>

theorem webhook_signature_rejected:
  "(\<exists>status code m.
      createApp_webhook hmac_hex json_parse body_parsers w deploymentId projectId req
        = (w, SendError status code m, [])) \<and>
   (\<forall>keys parsed sig p ps secret.
      body_parsers req = Inr (keys, parsed) \<and>
      content_type_check req keys = None \<and>
      truthy_string (h_signature req) = Some sig \<and>
      filter (\<lambda>p. p_id p = projectId \<and> p_deleted_at p = None) (projects w) = p # ps \<and>
      truthy_string (webhook_secret p) = Some secret \<longrightarrow>
        createApp_webhook hmac_hex json_parse body_parsers w deploymentId projectId req
          = (w, SendError 401 ''INVALID_SIGNATURE'' ''Invalid webhook signature'', [])) \<and>
   (\<forall>payload signature secret.
      verifySignature hmac_hex payload signature secret = Inr True \<longrightarrow>
        (\<exists>body. payload = Some body \<and> signature = ''sha256='' @ hmac_hex secret body))"
proof (intro conjI allI impI)
  show "\<exists>status code m.
      createApp_webhook hmac_hex json_parse body_parsers w deploymentId projectId req
        = (w, SendError status code m, [])"
  proof (cases "body_parsers req")
    case (Inl error)
    with errorHandler_sends_error [of error] show ?thesis
      by (auto simp: createApp_webhook_def)
  next
    case (Inr parsed)
    obtain keys body where parsed: "parsed = (keys, body)"
      by (cases parsed)
    show ?thesis
    proof (cases "content_type_check req keys")
      case (Some response)
      with content_type_check_sends_error [OF Some] Inr parsed show ?thesis
        by (auto simp: createApp_webhook_def)
    next
      case None
      with Inr parsed show ?thesis
        by (simp add: createApp_webhook_def webhook_router_def parseWebhookBody_def
            github_webhook_no_raw_body split: option.splits list.splits)
    qed
  qed
next
  fix keys parsed sig p ps secret
  assume "body_parsers req = Inr (keys, parsed) \<and>
      content_type_check req keys = None \<and>
      truthy_string (h_signature req) = Some sig \<and>
      filter (\<lambda>p. p_id p = projectId \<and> p_deleted_at p = None) (projects w) = p # ps \<and>
      truthy_string (webhook_secret p) = Some secret"
  then show "createApp_webhook hmac_hex json_parse body_parsers w deploymentId projectId req
          = (w, SendError 401 ''INVALID_SIGNATURE'' ''Invalid webhook signature'', [])"
    by (simp add: createApp_webhook_def webhook_router_def parseWebhookBody_def
        github_webhook_no_raw_body)
next
  fix payload signature secret
  assume "verifySignature hmac_hex payload signature secret = Inr True"
  then show "\<exists>body. payload = Some body \<and> signature = ''sha256='' @ hmac_hex secret body"
    by (cases payload) (auto simp: verifySignature_def Let_def split: if_splits)
qed

text \<open>
  At the example state: the push whose signature was computed under the wrong secret
  \<open>guess\<close> is answered 401 and no deployment is created. (So is the push signed under the
  project's own secret.) On the body's bytes, \<^verbatim>\<open>verifySignature\<close> returns
  \<^verbatim>\<open>false\<close> for the first signature and \<^verbatim>\<open>true\<close> for the second.
\<close>

theorem webhook_signature_rejected_witness:
  "content_type_check example_request 4 = None \<and>
   truthy_string (h_signature example_request)
     = Some (''sha256='' @ stand_in_hmac ''guess'' ''body-bytes'') \<and>
   createApp_webhook stand_in_hmac (\<lambda>text. Some example_push) (\<lambda>req. Inr (4, example_push))
       example_world ''d2'' ''p1'' example_request
     = (example_world, SendError 401 ''INVALID_SIGNATURE'' ''Invalid webhook signature'', []) \<and>
   createApp_webhook stand_in_hmac (\<lambda>text. Some example_push) (\<lambda>req. Inr (4, example_push))
       example_world ''d2'' ''p1''
       (example_request\<lparr>h_signature := Some (''sha256='' @ stand_in_hmac ''s3cret'' ''body-bytes'')\<rparr>)
     = (example_world, SendError 401 ''INVALID_SIGNATURE'' ''Invalid webhook signature'', []) \<and>
   verifySignature stand_in_hmac (Some ''body-bytes'')
       (''sha256='' @ stand_in_hmac ''guess'' ''body-bytes'') ''s3cret'' = Inr False \<and>
   verifySignature stand_in_hmac (Some ''body-bytes'')
       (''sha256='' @ stand_in_hmac ''s3cret'' ''body-bytes'') ''s3cret'' = Inr True"
proof -
  let ?p = "\<lparr>p_id = ''p1'', user_id = ''u1'', slug = ''demo'',
             repository_url = Some ''https://git.example/demo.git'',
             webhook_secret = Some ''s3cret'', p_deleted_at = None\<rparr>"
  let ?signed = "example_request\<lparr>h_signature :=
                   Some (''sha256='' @ stand_in_hmac ''s3cret'' ''body-bytes'')\<rparr>"
  have project: "filter (\<lambda>p. p_id p = ''p1'' \<and> p_deleted_at p = None) (projects example_world)
                   = ?p # []"
    by (simp add: example_world_def)
  have secret: "truthy_string (webhook_secret ?p) = Some ''s3cret''"
    by (simp add: truthy_string_def)
  have check: "content_type_check example_request 4 = None"
    "content_type_check ?signed 4 = None"
    by (simp_all add: content_type_check_def example_request_def)
  have sig: "truthy_string (h_signature example_request)
               = Some (''sha256='' @ stand_in_hmac ''guess'' ''body-bytes'')"
    "truthy_string (h_signature ?signed)
               = Some (''sha256='' @ stand_in_hmac ''s3cret'' ''body-bytes'')"
    by (simp_all add: truthy_string_def example_request_def stand_in_hmac_def)
  have wrong: "createApp_webhook stand_in_hmac (\<lambda>text. Some example_push)
       (\<lambda>req. Inr (4, example_push)) example_world ''d2'' ''p1'' example_request
     = (example_world, SendError 401 ''INVALID_SIGNATURE'' ''Invalid webhook signature'', [])"
    using webhook_signature_rejected
      [where body_parsers = "\<lambda>req. Inr (4, example_push)" and req = example_request
         and w = example_world and projectId = "''p1''" and hmac_hex = stand_in_hmac
         and json_parse = "\<lambda>text. Some example_push" and deploymentId = "''d2''"]
      check(1) sig(1) project secret
    by blast
  have right: "createApp_webhook stand_in_hmac (\<lambda>text. Some example_push)
       (\<lambda>req. Inr (4, example_push)) example_world ''d2'' ''p1'' ?signed
     = (example_world, SendError 401 ''INVALID_SIGNATURE'' ''Invalid webhook signature'', [])"
    using webhook_signature_rejected
      [where body_parsers = "\<lambda>req. Inr (4, example_push)" and req = ?signed
         and w = example_world and projectId = "''p1''" and hmac_hex = stand_in_hmac
         and json_parse = "\<lambda>text. Some example_push" and deploymentId = "''d2''"]
      check(2) sig(2) project secret
    by blast
  have verify: "verifySignature stand_in_hmac (Some ''body-bytes'')
       (''sha256='' @ stand_in_hmac ''guess'' ''body-bytes'') ''s3cret'' = Inr False"
    "verifySignature stand_in_hmac (Some ''body-bytes'')
       (''sha256='' @ stand_in_hmac ''s3cret'' ''body-bytes'') ''s3cret'' = Inr True"
    by (simp_all add: verifySignature_def stand_in_hmac_def)
  from check(1) sig(1) wrong right verify show ?thesis
    by blast
qed

text \<open>
  The route itself does not read what \<^verbatim>\<open>verifySignature\<close> returns. Were a
  buffer to reach the router (no parser mounted by \<^verbatim>\<open>createApp\<close> leaves one), a
  signature header of the expected length would get the very answer the correctly signed
  request gets, whatever its content.
\<close>

lemma route_discards_comparison:
  assumes "json_parse bytes = Some parsed"
    and "filter (\<lambda>p. p_id p = projectId \<and> p_deleted_at p = None) (projects w) = p # ps"
    and "truthy_string (webhook_secret p) = Some secret"
    and "length signature = length (''sha256='' @ hmac_hex secret bytes)"
  shows "webhook_router hmac_hex json_parse w deploymentId projectId (Some signature)
           eventType (Buffer bytes)
         = webhook_router hmac_hex json_parse w deploymentId projectId
             (Some (''sha256='' @ hmac_hex secret bytes)) eventType (Buffer bytes)"
proof -
  from assms(4) have ne: "signature \<noteq> []"
    by auto
  have given: "verifySignature hmac_hex (Some bytes) signature secret
                 = Inr (''sha256='' @ hmac_hex secret bytes = signature)"
    using assms(4) by (simp add: verifySignature_def Let_def)
  have expected: "verifySignature hmac_hex (Some bytes) (''sha256='' @ hmac_hex secret bytes) secret
                 = Inr True"
    by (simp add: verifySignature_def Let_def)
  have sig: "truthy_string (Some signature) = Some signature"
    using ne by (simp add: truthy_string_def)
  have sig': "truthy_string (Some (''sha256='' @ hmac_hex secret bytes))
                = Some (''sha256='' @ hmac_hex secret bytes)"
    by (simp add: truthy_string_def)
  show ?thesis
    by (simp only: webhook_router_def parseWebhookBody_def req_body.case assms(1) option.case
        sum.case prod.case github_webhook_def sig sig' assms(2,3) list.case given expected)
qed

text \<open>
  C3 at the example state. The push handler inserts the pending deployment \<open>d2\<close> and
  reports success, but all it leaves on the event loop is its
  \<^verbatim>\<open>setImmediate\<close> callback, which changes nothing: once it has run, \<open>d2\<close> is
  still pending and no activation of the pipeline exists. The API's creator, on the same
  state, leaves an \<^verbatim>\<open>executeDeployment\<close> activation; so would
  \<^verbatim>\<open>executeWebhookDeployment\<close>, which nothing calls.
\<close>

theorem webhook_deployment_never_started:
  "handlePushWebhook example_world ''d2'' example_push ''p1'' =
     (example_world\<lparr>deployments :=
        [example_deployment,
         \<lparr>dep_id = ''d2'', project_id = ''p1'', environment_id = ''e1'',
          commit_sha = Some ''0123abcd'',
          commit_message = Some ''Webhook deployment from ada on main'', status = PENDING,
          duration_seconds = None, deployed_at = None, container_id = None,
          container_port = None, error_message = None, created_at = 200, updated_at = 200\<rparr>]\<rparr>,
      PushResult True (Some ''d2'') ''Deployment triggered for main branch'',
      [WebhookReadyCheck ''d2'']) \<and>
   (case handlePushWebhook example_world ''d2'' example_push ''p1'' of
      (w', r, tasks) \<Rightarrow>
        foldl (run_task example_io) w' tasks = w' \<and>
        map status (filter (\<lambda>d. dep_id d = ''d2'') (deployments (foldl (run_task example_io) w' tasks)))
          = [PENDING] \<and>
        executeWebhookDeployment w' ''d2'' = [ExecuteDeployment ''d2'' ''p1'' ''e1'' ''u1'']) \<and>
   (case createDeployment example_world ''d2'' ''p1'' ''u1'' ''e1'' (Some ''0123abcd'') None of
      Inl e \<Rightarrow> False
    | Inr (w', i, tasks) \<Rightarrow> tasks = [ExecuteDeployment ''d2'' ''p1'' ''e1'' ''u1''])"
  by (simp add: webhook_defs example_defs createDeployment_def executeWebhookDeployment_def Let_def)

end
